theory Spec2Isabelle
  imports Complex_Main "HOL-Library.Multiset" "HOL-Library.Char_ord" "HOL-Library.List_Lexorder"
begin

section \<open>Python values and exceptions\<close>

text \<open>
  The payload of \<^verbatim>\<open>req.json()\<close>: any JSON value. A dict is an association list, read
  with \<open>map_of\<close> (the first binding of a key is the dict's entry).
\<close>

datatype json =
    JNull
  | JBool bool
  | JInt int
  | JFloat real
  | JStr string
  | JList "json list"
  | JObj "(string \<times> json) list"

text \<open>
  The exceptions that can occur in \<^verbatim>\<open>ha_client.py\<close>. \<open>ConnectionError\<close> is Python's
  builtin class (the module imports only \<open>RequestException\<close> and \<open>Timeout\<close> from
  \<^verbatim>\<open>requests.exceptions\<close>, so the bare name in \<^verbatim>\<open>connected\<close> is the builtin);
  \<open>RequestsConnectionError\<close> is \<^verbatim>\<open>requests.exceptions.ConnectionError\<close>, and
  \<open>JSONDecodeError\<close> is \<^verbatim>\<open>requests.exceptions.JSONDecodeError\<close>, which
  \<^verbatim>\<open>req.json()\<close> raises for a body that is not JSON: it is a \<open>RequestException\<close> as
  well as a \<^verbatim>\<open>ValueError\<close>.
\<close>

datatype error =
    KeyError
  | TypeError
  | AttributeError
  | ConnectionError
  | Timeout
  | RequestsConnectionError
  | HTTPError
  | JSONDecodeError
  | RequestException

text \<open>Subclasses of \<^verbatim>\<open>requests.exceptions.RequestException\<close> (the class itself included).\<close>

fun is_request_exception :: "error \<Rightarrow> bool" where
  "is_request_exception Timeout = True"
| "is_request_exception RequestsConnectionError = True"
| "is_request_exception HTTPError = True"
| "is_request_exception JSONDecodeError = True"
| "is_request_exception RequestException = True"
| "is_request_exception _ = False"

text \<open>
  Sequencing of expressions that may raise: the first exception ends the evaluation.
\<close>

definition err_bind :: "error + 'a \<Rightarrow> ('a \<Rightarrow> error + 'b) \<Rightarrow> error + 'b" where
  "err_bind r k = (case r of Inl e \<Rightarrow> Inl e | Inr v \<Rightarrow> k v)"

text \<open>Truth value of a JSON value, as \<^verbatim>\<open>if json_data:\<close> tests it.\<close>

fun truthy :: "json \<Rightarrow> bool" where
  "truthy JNull = False"
| "truthy (JBool b) = b"
| "truthy (JInt i) = (i \<noteq> 0)"
| "truthy (JFloat x) = (x \<noteq> 0)"
| "truthy (JStr s) = (s \<noteq> [])"
| "truthy (JList xs) = (xs \<noteq> [])"
| "truthy (JObj kvs) = (kvs \<noteq> [])"

text \<open>
  \<^verbatim>\<open>x[key]\<close> with a string key: a dict looks the key up and raises \<open>KeyError\<close> when
  it is missing; every other JSON value raises \<open>TypeError\<close>.
\<close>

fun getitem :: "json \<Rightarrow> string \<Rightarrow> error + json" where
  "getitem (JObj kvs) k = (case map_of kvs k of None \<Rightarrow> Inl KeyError | Some v \<Rightarrow> Inr v)"
| "getitem _ k = Inl TypeError"

text \<open>
  \<^verbatim>\<open>for x in v\<close>: a list yields its elements, a dict its keys, a string its
  characters; a number or a boolean is not iterable.
\<close>

fun py_iter :: "json \<Rightarrow> error + json list" where
  "py_iter (JList xs) = Inr xs"
| "py_iter (JObj kvs) = Inr (map JStr (remdups (map fst kvs)))"
| "py_iter (JStr s) = Inr (map (\<lambda>c. JStr [c]) s)"
| "py_iter _ = Inl TypeError"

text \<open>\<^verbatim>\<open>s.split(".")[0]\<close> on a string: what stands before the first dot.\<close>

definition domain_of :: "string \<Rightarrow> string" where
  "domain_of s = takeWhile (\<lambda>c. c \<noteq> CHR ''.'') s"

fun py_split_first :: "json \<Rightarrow> error + string" where
  "py_split_first (JStr s) = Inr (domain_of s)"
| "py_split_first _ = Inl AttributeError"

text \<open>\<^verbatim>\<open>str.lower\<close>, on the letters A to Z; every other character stays.\<close>

definition lower_char :: "char \<Rightarrow> char" where
  "lower_char c =
     (case map_of (zip ''ABCDEFGHIJKLMNOPQRSTUVWXYZ'' ''abcdefghijklmnopqrstuvwxyz'') c of
        None \<Rightarrow> c
      | Some d \<Rightarrow> d)"

definition lower :: "string \<Rightarrow> string" where
  "lower s = map lower_char s"

fun py_lower :: "json \<Rightarrow> error + string" where
  "py_lower (JStr s) = Inr (lower s)"
| "py_lower _ = Inl AttributeError"

definition startswith :: "string \<Rightarrow> string \<Rightarrow> bool" where
  "startswith s p = (take (length p) s = p)"

fun py_startswith :: "json \<Rightarrow> string \<Rightarrow> error + bool" where
  "py_startswith (JStr s) p = Inr (startswith s p)"
| "py_startswith _ p = Inl AttributeError"

section \<open>The client and its configuration\<close>

text \<open>Values of the configuration mapping: \<^verbatim>\<open>None\<close>, booleans, integers, strings.\<close>

datatype cfgval = CNone | CBool bool | CInt int | CStr string

fun cfg_truthy :: "cfgval \<Rightarrow> bool" where
  "cfg_truthy CNone = False"
| "cfg_truthy (CBool b) = b"
| "cfg_truthy (CInt i) = (i \<noteq> 0)"
| "cfg_truthy (CStr s) = (s \<noteq> [])"

text \<open>\<^verbatim>\<open>x or y\<close>: \<open>x\<close> itself when it is truthy, otherwise \<open>y\<close>.\<close>

definition py_or :: "cfgval \<Rightarrow> cfgval \<Rightarrow> cfgval" where
  "py_or x y = (if cfg_truthy x then x else y)"

fun digits :: "nat \<Rightarrow> string" where
  "digits n =
     (if n < 10 then [''0123456789'' ! n]
      else digits (n div 10) @ [''0123456789'' ! (n mod 10)])"

declare digits.simps [simp del]

text \<open>The text an f-string puts for a value.\<close>

fun py_str :: "cfgval \<Rightarrow> string" where
  "py_str CNone = ''None''"
| "py_str (CBool b) = (if b then ''True'' else ''False'')"
| "py_str (CInt i) = (if i < 0 then CHR ''-'' # digits (nat (- i)) else digits (nat i))"
| "py_str (CStr s) = s"

definition cfg_get :: "(string \<times> cfgval) list \<Rightarrow> string \<Rightarrow> error + cfgval" where
  "cfg_get config k = (case map_of config k of None \<Rightarrow> Inl KeyError | Some v \<Rightarrow> Inr v)"

record client =
  ssl :: cfgval
  verify :: cfgval
  url :: string
  headers :: "(string \<times> string) list"

text \<open>\<^verbatim>\<open>HomeAssistantClient.__init__\<close>: the five lookups in the order of the source.\<close>

definition HomeAssistantClient_init :: "(string \<times> cfgval) list \<Rightarrow> error + client" where
  "HomeAssistantClient_init config =
     err_bind (cfg_get config ''ssl'') (\<lambda>s.
     err_bind (cfg_get config ''verify'') (\<lambda>v.
     err_bind (cfg_get config ''ip_address'') (\<lambda>ip_address.
     err_bind (cfg_get config ''token'') (\<lambda>token.
     err_bind (cfg_get config ''port_number'') (\<lambda>port_number.
        (let self_ssl = py_or s (CBool False);
             self_verify = py_or v (CBool True);
             url0 = (if cfg_truthy self_ssl then ''https://'' @ py_str ip_address
                     else ''http://'' @ py_str ip_address);
             url1 = (if cfg_truthy port_number then url0 @ '':'' @ py_str port_number
                     else url0)
         in Inr \<lparr>ssl = self_ssl, verify = self_verify, url = url1,
                 headers = [(''Authorization'', ''Bearer '' @ py_str token),
                            (''Content-Type'', ''application/json'')]\<rparr>))))))"

section \<open>The transport\<close>

text \<open>
  \<^verbatim>\<open>requests.get\<close> and \<^verbatim>\<open>requests.post\<close> are the environment. The server is a
  queue of outcomes, one per request (an exception raised by the transport, or a
  response), and a log of the requests it was sent. A request to an exhausted queue is
  refused.
\<close>

datatype verb = GET | POST

record request =
  req_verb :: verb
  req_url :: string
  req_headers :: "(string \<times> string) list"
  payload :: "json option"
  req_verify :: "cfgval option"
  req_timeout :: nat

record response =
  status_code :: nat
  json_result :: "error + json"

record server =
  pending :: "(error + response) list"
  sent :: "request list"

definition TIMEOUT :: nat where
  "TIMEOUT = 10"

definition send :: "request \<Rightarrow> server \<Rightarrow> (error + response) \<times> server" where
  "send req srv =
     (case pending srv of
        [] \<Rightarrow> (Inl RequestsConnectionError, srv\<lparr>sent := sent srv @ [req]\<rparr>)
      | r # rs \<Rightarrow> (r, srv\<lparr>pending := rs, sent := sent srv @ [req]\<rparr>))"

text \<open>
  Modelled from the spec: \<^verbatim>\<open>Response.raise_for_status\<close> belongs to the
  \<^verbatim>\<open>requests\<close> library, which is not among the sources. The spec's
  \<open>HttpStatusError\<close> is raised for a non-2xx response.
\<close>

definition raise_for_status :: "response \<Rightarrow> error + unit" where
  "raise_for_status resp =
     (if 200 \<le> status_code resp \<and> status_code resp < 300 then Inr () else Inl HTTPError)"

text \<open>\<^verbatim>\<open>_get_state\<close>: one GET of \<^verbatim>\<open>/api/states\<close>, the status check, the JSON payload.\<close>

definition get_state :: "client \<Rightarrow> server \<Rightarrow> (error + json) \<times> server" where
  "get_state self srv =
     (let req = (if cfg_truthy (ssl self)
                 then \<lparr>req_verb = GET, req_url = url self @ ''/api/states'',
                       req_headers = headers self, payload = None,
                       req_verify = Some (verify self), req_timeout = TIMEOUT\<rparr>
                 else \<lparr>req_verb = GET, req_url = url self @ ''/api/states'',
                       req_headers = headers self, payload = None,
                       req_verify = None, req_timeout = TIMEOUT\<rparr>)
      in case send req srv of
           (Inl e, srv') \<Rightarrow> (Inl e, srv')
         | (Inr resp, srv') \<Rightarrow>
             (case raise_for_status resp of
                Inl e \<Rightarrow> (Inl e, srv')
              | Inr _ \<Rightarrow> (json_result resp, srv')))"

text \<open>
  \<^verbatim>\<open>connected\<close>: the handler \<^verbatim>\<open>except (Timeout, ConnectionError, RequestException)\<close>
  turns these exceptions into \<open>False\<close>; any other exception propagates.
\<close>

definition caught_by_connected :: "error \<Rightarrow> bool" where
  "caught_by_connected e = (e = Timeout \<or> e = ConnectionError \<or> is_request_exception e)"

definition connected_ha :: "client \<Rightarrow> server \<Rightarrow> (error + bool) \<times> server" where
  "connected_ha self srv =
     (case get_state self srv of
        (Inr _, srv') \<Rightarrow> (Inr True, srv')
      | (Inl e, srv') \<Rightarrow> (if caught_by_connected e then Inr False else Inl e, srv'))"

text \<open>\<^verbatim>\<open>execute_service\<close>: one POST, the status check, the response itself.\<close>

definition execute_service ::
  "client \<Rightarrow> string \<Rightarrow> string \<Rightarrow> json \<Rightarrow> server \<Rightarrow> (error + response) \<times> server" where
  "execute_service self domain service data srv =
     (let req = (if cfg_truthy (ssl self)
                 then \<lparr>req_verb = POST,
                       req_url = url self @ ''/api/services/'' @ domain @ ''/'' @ service,
                       req_headers = headers self, payload = Some data,
                       req_verify = Some (verify self), req_timeout = TIMEOUT\<rparr>
                 else \<lparr>req_verb = POST,
                       req_url = url self @ ''/api/services/'' @ domain @ ''/'' @ service,
                       req_headers = headers self, payload = Some data,
                       req_verify = None, req_timeout = TIMEOUT\<rparr>)
      in case send req srv of
           (Inl e, srv') \<Rightarrow> (Inl e, srv')
         | (Inr resp, srv') \<Rightarrow>
             (case raise_for_status resp of
                Inl e \<Rightarrow> (Inl e, srv')
              | Inr _ \<Rightarrow> (Inr resp, srv')))"

section \<open>The scoring function\<close>

text \<open>
  Modelled from the spec: \<^verbatim>\<open>fuzz.token_sort_ratio\<close> belongs to the fuzzywuzzy library,
  which is not among the sources. The spec (4.2, step 3a) describes it: the strings are
  lower-cased and split into word tokens, the tokens sorted alphabetically and rejoined, and
  a similarity ratio between 0 and 100 applied to the two normalised strings. The ratio is
  the parameter \<open>ratio\<close>; \<open>split_words\<close> splits at blanks, its first argument the word
  read so far.
\<close>

fun split_words :: "string \<Rightarrow> string \<Rightarrow> string list" where
  "split_words w [] = (if w = [] then [] else [w])"
| "split_words w (c # cs) =
     (if c = CHR '' ''
      then (if w = [] then split_words [] cs else w # split_words [] cs)
      else split_words (w @ [c]) cs)"

definition tokens :: "string \<Rightarrow> string list" where
  "tokens s = split_words [] s"

fun join_words :: "string list \<Rightarrow> string" where
  "join_words [] = []"
| "join_words [w] = w"
| "join_words (w # ws) = w @ CHR '' '' # join_words ws"

definition process_and_sort :: "string \<Rightarrow> string" where
  "process_and_sort s = join_words (sort (tokens (lower s)))"

definition token_sort_ratio :: "(string \<Rightarrow> string \<Rightarrow> int) \<Rightarrow> string \<Rightarrow> string \<Rightarrow> int" where
  "token_sort_ratio ratio s1 s2 = ratio (process_and_sort s1) (process_and_sort s2)"

section \<open>The entity resolver\<close>

text \<open>
  The dict \<^verbatim>\<open>find_entity\<close> returns; \<open>ent_id\<close> and \<open>ent_state\<close> are its keys
  \<^verbatim>\<open>"id"\<close> and \<^verbatim>\<open>"state"\<close>.
\<close>

record resolved =
  ent_id :: json
  dev_name :: json
  ent_state :: json
  best_score :: int
  attributes :: json

text \<open>The loop's two variables: the running best score and the recorded candidate.\<close>

type_synonym scan = "int \<times> resolved option"

text \<open>The dict display of lines 109--115 (and 121--127), its lookups left to right.\<close>

definition candidate :: "json \<Rightarrow> int \<Rightarrow> error + resolved" where
  "candidate st score =
     err_bind (getitem st ''entity_id'') (\<lambda>i.
     err_bind (getitem st ''attributes'') (\<lambda>a.
     err_bind (getitem a ''friendly_name'') (\<lambda>n.
     err_bind (getitem st ''state'') (\<lambda>s.
     err_bind (getitem st ''attributes'') (\<lambda>a2.
       Inr \<lparr>ent_id = i, dev_name = n, ent_state = s, best_score = score,
            attributes = a2\<rparr>)))))"

text \<open>
  \<^verbatim>\<open>if score > best_score:\<close> with its two assignments. The score is assigned first; an
  exception in the dict display leaves the candidate as it was. The result is the exception
  raised, if any, and the variables at that moment.
\<close>

definition update_best :: "int \<Rightarrow> json \<Rightarrow> scan \<Rightarrow> error option \<times> scan" where
  "update_best score st sc =
     (case sc of (bs, be) \<Rightarrow>
        if score > bs
        then (case candidate st score of
                Inl e \<Rightarrow> (Some e, (score, be))
              | Inr c \<Rightarrow> (None, (score, Some c)))
        else (None, (bs, be)))"

text \<open>
  Inside the \<^verbatim>\<open>try\<close>: an expression that raises ends the body with the variables
  as they are.
\<close>

definition attempt :: "error + 'a \<Rightarrow> scan \<Rightarrow> ('a \<Rightarrow> error option \<times> scan) \<Rightarrow> error option \<times> scan" where
  "attempt r sc k = (case r of Inl e \<Rightarrow> (Some e, sc) | Inr v \<Rightarrow> k v)"

text \<open>
  The body of the \<^verbatim>\<open>try\<close> for one element of the payload. The scoring function
  \<^verbatim>\<open>fuzz.token_sort_ratio\<close> is the parameter \<open>tsr\<close>.
\<close>

definition try_body ::
  "(string \<Rightarrow> string \<Rightarrow> int) \<Rightarrow> string \<Rightarrow> string list \<Rightarrow> json \<Rightarrow> scan \<Rightarrow> error option \<times> scan" where
  "try_body tsr entity types st sc =
     attempt (getitem st ''entity_id'') sc (\<lambda>i.
     attempt (py_split_first i) sc (\<lambda>d.
       if d \<in> set types
       then attempt (getitem st ''attributes'') sc (\<lambda>a.
            attempt (getitem a ''friendly_name'') sc (\<lambda>n.
            attempt (py_lower n) sc (\<lambda>nl.
              (case update_best (tsr entity nl) st sc of
                 (Some e, sc1) \<Rightarrow> (Some e, sc1)
               | (None, sc1) \<Rightarrow>
                   attempt (getitem st ''entity_id'') sc1 (\<lambda>i2.
                   attempt (py_lower i2) sc1 (\<lambda>il.
                     update_best (tsr entity il) st sc1))))))
       else (None, sc)))"

text \<open>\<^verbatim>\<open>except KeyError: pass\<close>: a \<open>KeyError\<close> ends the element, anything else the call.\<close>

definition loop_step ::
  "(string \<Rightarrow> string \<Rightarrow> int) \<Rightarrow> string \<Rightarrow> string list \<Rightarrow> json \<Rightarrow> scan \<Rightarrow> error + scan" where
  "loop_step tsr entity types st sc =
     (case try_body tsr entity types st sc of
        (None, sc') \<Rightarrow> Inr sc'
      | (Some e, sc') \<Rightarrow> if e = KeyError then Inr sc' else Inl e)"

fun scan_loop ::
  "(string \<Rightarrow> string \<Rightarrow> int) \<Rightarrow> string \<Rightarrow> string list \<Rightarrow> json list \<Rightarrow> scan \<Rightarrow> error + scan" where
  "scan_loop tsr entity types [] sc = Inr sc"
| "scan_loop tsr entity types (st # rest) sc =
     (case loop_step tsr entity types st sc of
        Inl e \<Rightarrow> Inl e
      | Inr sc' \<Rightarrow> scan_loop tsr entity types rest sc')"

text \<open>Lines 94--130 of \<^verbatim>\<open>find_entity\<close>, on the payload already fetched.\<close>

definition find_entity_in ::
  "(string \<Rightarrow> string \<Rightarrow> int) \<Rightarrow> string \<Rightarrow> string list \<Rightarrow> json \<Rightarrow> error + resolved option" where
  "find_entity_in tsr entity types json_data =
     (if truthy json_data
      then (case py_iter json_data of
              Inl e \<Rightarrow> Inl e
            | Inr states \<Rightarrow>
                (case scan_loop tsr entity types states (50, None) of
                   Inl e \<Rightarrow> Inl e
                 | Inr (bs, be) \<Rightarrow> Inr be))
      else Inr None)"

definition find_entity ::
  "(string \<Rightarrow> string \<Rightarrow> int) \<Rightarrow> client \<Rightarrow> string \<Rightarrow> string list \<Rightarrow> server
     \<Rightarrow> (error + resolved option) \<times> server" where
  "find_entity tsr self entity types srv =
     (case get_state self srv of
        (Inl e, srv') \<Rightarrow> (Inl e, srv')
      | (Inr json_data, srv') \<Rightarrow> (find_entity_in tsr entity types json_data, srv'))"

section \<open>The attribute reader\<close>

record summary =
  unit_measure :: json
  name :: json
  state :: json

text \<open>The \<^verbatim>\<open>try\<close> of lines 145--152: a \<open>KeyError\<close> makes the unit the empty string.\<close>

definition unit_of :: "json \<Rightarrow> json \<Rightarrow> error + json" where
  "unit_of attr entity_attrs =
     (case err_bind (getitem attr ''entity_id'') (\<lambda>i.
           err_bind (py_startswith i ''light.'') (\<lambda>b.
             if b then getitem entity_attrs ''brightness''
             else getitem entity_attrs ''unit_of_measurement''))
      of Inl e \<Rightarrow> if e = KeyError then Inr (JStr []) else Inl e
       | Inr v \<Rightarrow> Inr v)"

text \<open>Lines 144--163: what is returned for the element whose id matched.\<close>

definition attr_summary :: "json \<Rightarrow> error + summary" where
  "attr_summary attr =
     err_bind (getitem attr ''attributes'') (\<lambda>entity_attrs.
     err_bind (unit_of attr entity_attrs) (\<lambda>unit_measur.
     err_bind (getitem entity_attrs ''friendly_name'') (\<lambda>sensor_name.
     err_bind (getitem attr ''state'') (\<lambda>sensor_state.
       Inr \<lparr>unit_measure = unit_measur, name = sensor_name, state = sensor_state\<rparr>))))"

fun attr_loop :: "string \<Rightarrow> json list \<Rightarrow> error + summary option" where
  "attr_loop entity [] = Inr None"
| "attr_loop entity (attr # rest) =
     (case getitem attr ''entity_id'' of
        Inl e \<Rightarrow> Inl e
      | Inr i \<Rightarrow>
          if i = JStr entity
          then (case attr_summary attr of Inl e \<Rightarrow> Inl e | Inr s \<Rightarrow> Inr (Some s))
          else attr_loop entity rest)"

definition find_entity_attr_in :: "string \<Rightarrow> json \<Rightarrow> error + summary option" where
  "find_entity_attr_in entity json_data =
     (if truthy json_data
      then (case py_iter json_data of
              Inl e \<Rightarrow> Inl e
            | Inr attrs \<Rightarrow> attr_loop entity attrs)
      else Inr None)"

definition find_entity_attr ::
  "client \<Rightarrow> string \<Rightarrow> server \<Rightarrow> (error + summary option) \<times> server" where
  "find_entity_attr self entity srv =
     (case get_state self srv of
        (Inl e, srv') \<Rightarrow> (Inl e, srv')
      | (Inr json_data, srv') \<Rightarrow> (find_entity_attr_in entity json_data, srv'))"

section \<open>Predicates of the properties\<close>

text \<open>What the loop keeps true of its two variables.\<close>

definition scan_ok :: "scan \<Rightarrow> bool" where
  "scan_ok sc = (50 \<le> fst sc \<and> (case snd sc of None \<Rightarrow> True | Some c \<Rightarrow> 50 < best_score c))"

text \<open>A recorded candidate is the dict display evaluated on an element of the payload.\<close>

definition built_from :: "json list \<Rightarrow> scan \<Rightarrow> bool" where
  "built_from states sc =
     (case snd sc of None \<Rightarrow> True
      | Some c \<Rightarrow> \<exists>st \<in> set states. candidate st (best_score c) = Inr c)"

text \<open>
  An element that the domain test of line 100 keeps out: a dict without \<^verbatim>\<open>entity_id\<close>,
  or one whose id is a string with a domain outside \<open>types\<close>.
\<close>

fun excluded :: "string list \<Rightarrow> json \<Rightarrow> bool" where
  "excluded types (JObj kvs) =
     (case map_of kvs ''entity_id'' of
        None \<Rightarrow> True
      | Some (JStr s) \<Rightarrow> domain_of s \<notin> set types
      | Some _ \<Rightarrow> False)"
| "excluded types _ = False"

text \<open>A transport error in the spec's words: a connection failure or a timeout.\<close>

definition spec_transport_error :: "error \<Rightarrow> bool" where
  "spec_transport_error e = (e = ConnectionError \<or> e = RequestsConnectionError \<or> e = Timeout)"

text \<open>
  An element takes part in the scan with both comparisons when its id is a string with a
  domain in \<open>types\<close>, its attributes hold a string \<^verbatim>\<open>friendly_name\<close>, and it has a
  \<^verbatim>\<open>state\<close>. Its score is the larger of the two scores the loop computes for it.
\<close>

fun str_of :: "error + json \<Rightarrow> string option" where
  "str_of (Inr (JStr s)) = Some s"
| "str_of _ = None"

definition eligible :: "string list \<Rightarrow> json \<Rightarrow> bool" where
  "eligible types st =
     (case str_of (getitem st ''entity_id'') of
        None \<Rightarrow> False
      | Some i \<Rightarrow>
          domain_of i \<in> set types \<and>
          (case getitem st ''attributes'' of
             Inl e \<Rightarrow> False
           | Inr a \<Rightarrow> str_of (getitem a ''friendly_name'') \<noteq> None \<and> \<not> isl (getitem st ''state'')))"

definition rec_score :: "(string \<Rightarrow> string \<Rightarrow> int) \<Rightarrow> string \<Rightarrow> json \<Rightarrow> int" where
  "rec_score tsr entity st =
     (case (str_of (getitem st ''entity_id''), getitem st ''attributes'') of
        (Some i, Inr a) \<Rightarrow>
          (case str_of (getitem a ''friendly_name'') of
             Some n \<Rightarrow> max (tsr entity (lower n)) (tsr entity (lower i))
           | None \<Rightarrow> 0)
      | _ \<Rightarrow> 0)"

text \<open>
  The loop invariant of the tie-break over a scanned prefix \<open>xs\<close>: the running best bounds
  every score seen, and the candidate is the earliest element that reached it.
\<close>

definition first_best :: "(string \<Rightarrow> string \<Rightarrow> int) \<Rightarrow> string \<Rightarrow> string list \<Rightarrow> json list \<Rightarrow> scan \<Rightarrow> bool" where
  "first_best tsr entity types xs sc =
     (50 \<le> fst sc
      \<and> (\<forall>j < length xs. eligible types (xs ! j) \<longrightarrow> rec_score tsr entity (xs ! j) \<le> fst sc)
      \<and> (case snd sc of
            None \<Rightarrow> fst sc = 50
          | Some c \<Rightarrow>
              50 < fst sc \<and>
              (\<exists>k < length xs. eligible types (xs ! k) \<and> rec_score tsr entity (xs ! k) = fst sc
                 \<and> candidate (xs ! k) (fst sc) = Inr c
                 \<and> (\<forall>j < k. eligible types (xs ! j) \<longrightarrow> rec_score tsr entity (xs ! j) < fst sc))))"

section \<open>Sample values\<close>

text \<open>
  A scoring function for concrete runs: identical strings score 100, all others 0. The
  properties below hold for every scoring function; this one instantiates them.
\<close>

definition exact_tsr :: "string \<Rightarrow> string \<Rightarrow> int" where
  "exact_tsr a b = (if a = b then 100 else 0)"

text \<open>
  The lamp of the spec's example, the entity it resolves to, the same lamp without a
  friendly name, and a lamp whose record has no state.
\<close>

definition lamp_record :: json where
  "lamp_record = JObj [(''entity_id'', JStr ''light.lamp''),
     (''state'', JStr ''on''),
     (''attributes'', JObj [(''brightness'', JInt 80), (''friendly_name'', JStr ''Lamp'')])]"

definition lamp_entity :: resolved where
  "lamp_entity = \<lparr>ent_id = JStr ''light.lamp'', dev_name = JStr ''Lamp'', ent_state = JStr ''on'',
     best_score = 100,
     attributes = JObj [(''brightness'', JInt 80), (''friendly_name'', JStr ''Lamp'')]\<rparr>"

definition nameless_lamp :: json where
  "nameless_lamp = JObj [(''entity_id'', JStr ''light.lamp''),
     (''state'', JStr ''on''),
     (''attributes'', JObj [(''brightness'', JInt 80)])]"

definition stateless_lamp :: json where
  "stateless_lamp = JObj [(''entity_id'', JStr ''light.spot''),
     (''attributes'', JObj [(''friendly_name'', JStr ''Lamp'')])]"

text \<open>
  A lamp with a brightness and a friendly name whose record has no state, and a switch
  without any unit.
\<close>

definition desk_lamp :: json where
  "desk_lamp = JObj [(''entity_id'', JStr ''light.desk''),
     (''attributes'', JObj [(''brightness'', JInt 80), (''friendly_name'', JStr ''Desk'')])]"

definition fan_switch :: json where
  "fan_switch = JObj [(''entity_id'', JStr ''switch.fan''),
     (''state'', JStr ''off''),
     (''attributes'', JObj [(''friendly_name'', JStr ''Fan'')])]"

text \<open>
  The sensor of the spec's scenario and the entity it resolves to.
\<close>

definition outside_sensor :: json where
  "outside_sensor = JObj [(''entity_id'', JStr ''sensor.outside_temp''),
     (''state'', JStr ''21.5''),
     (''attributes'', JObj [(''unit_of_measurement'', JStr ''C''),
                            (''friendly_name'', JStr ''Outside Temperature'')])]"

definition outside_entity :: resolved where
  "outside_entity = \<lparr>ent_id = JStr ''sensor.outside_temp'', dev_name = JStr ''Outside Temperature'',
     ent_state = JStr ''21.5'', best_score = 100,
     attributes = JObj [(''unit_of_measurement'', JStr ''C''),
                        (''friendly_name'', JStr ''Outside Temperature'')]\<rparr>"

text \<open>
  A client without TLS, and servers: one answer with a status and a payload, a timeout, a
  body that is not JSON, a call that ends in a \<open>TypeError\<close>.
\<close>

definition plain_client :: client where
  "plain_client = \<lparr>ssl = CBool False, verify = CBool True, url = ''http://ha.local:8123'',
     headers = [(''Authorization'', ''Bearer abc''), (''Content-Type'', ''application/json'')]\<rparr>"

definition replying :: "nat \<Rightarrow> json \<Rightarrow> server" where
  "replying code data = \<lparr>pending = [Inr \<lparr>status_code = code, json_result = Inr data\<rparr>], sent = []\<rparr>"

definition serving :: "json \<Rightarrow> server" where
  "serving data = \<lparr>pending = [Inr \<lparr>status_code = 200, json_result = Inr data\<rparr>], sent = []\<rparr>"

definition timing_out :: server where
  "timing_out = \<lparr>pending = [Inl Timeout], sent = []\<rparr>"

definition not_json :: server where
  "not_json =
     \<lparr>pending = [Inr \<lparr>status_code = 200, json_result = Inl JSONDecodeError\<rparr>], sent = []\<rparr>"

definition failing_call :: server where
  "failing_call = \<lparr>pending = [Inl TypeError], sent = []\<rparr>"

text \<open>
  A configuration with falsy \<open>ssl\<close> and \<open>verify\<close>, and one without the key \<^verbatim>\<open>ssl\<close>.
\<close>

definition cfg_falsy :: "(string \<times> cfgval) list" where
  "cfg_falsy = [(''ssl'', CNone), (''verify'', CBool False), (''ip_address'', CStr ''ha.local''),
     (''token'', CStr ''abc''), (''port_number'', CInt 8123)]"

definition cfg_without_ssl :: "(string \<times> cfgval) list" where
  "cfg_without_ssl = [(''verify'', CBool False), (''ip_address'', CStr ''ha.local''),
     (''token'', CStr ''abc''), (''port_number'', CInt 8123)]"

section \<open>The scan loop\<close>

lemma attempt_inv:
  "P sc \<Longrightarrow> (\<And>v. r = Inr v \<Longrightarrow> P (snd (k v))) \<Longrightarrow> P (snd (attempt r sc k))"
  by (cases r) (simp_all add: attempt_def)

lemma try_body_inv:
  assumes start: "P sc"
    and upd: "\<And>score sc1. P sc1 \<Longrightarrow> P (snd (update_best score st sc1))"
  shows "P (snd (try_body tsr entity types st sc))"
proof -
  note ai = attempt_inv[of P]
  have second: "P (snd (attempt (getitem st ''entity_id'') sc1
          (\<lambda>i2. attempt (py_lower i2) sc1 (\<lambda>il. update_best (tsr entity il) st sc1))))"
    if "P sc1" for sc1
    by (intro ai upd that)
  have first: "P (snd (case update_best (tsr entity nl) st sc of
                 (Some e, sc1) \<Rightarrow> (Some e, sc1)
               | (None, sc1) \<Rightarrow>
                   attempt (getitem st ''entity_id'') sc1 (\<lambda>i2.
                   attempt (py_lower i2) sc1 (\<lambda>il.
                     update_best (tsr entity il) st sc1))))" for nl
  proof -
    obtain eo sc1 where Pair: "update_best (tsr entity nl) st sc = (eo, sc1)"
      by (metis surj_pair)
    have p1: "P sc1" using upd[OF start, of "tsr entity nl"] Pair by simp
    show ?thesis
    proof (cases eo)
      case None
      then show ?thesis using Pair second[OF p1] by simp
    next
      case (Some e)
      then show ?thesis using Pair p1 by simp
    qed
  qed
  have inner: "P (snd (if d \<in> set types
       then attempt (getitem st ''attributes'') sc (\<lambda>a.
            attempt (getitem a ''friendly_name'') sc (\<lambda>n.
            attempt (py_lower n) sc (\<lambda>nl.
              (case update_best (tsr entity nl) st sc of
                 (Some e, sc1) \<Rightarrow> (Some e, sc1)
               | (None, sc1) \<Rightarrow>
                   attempt (getitem st ''entity_id'') sc1 (\<lambda>i2.
                   attempt (py_lower i2) sc1 (\<lambda>il.
                     update_best (tsr entity il) st sc1))))))
       else (None, sc)))" for d
  proof (cases "d \<in> set types")
    case True
    then show ?thesis by (simp only: if_True) (intro ai start first)
  next
    case False
    then show ?thesis using start by simp
  qed
  show ?thesis
    unfolding try_body_def by (intro ai start inner)
qed

lemma loop_step_snd:
  "loop_step tsr entity types st sc = Inr sc' \<Longrightarrow> sc' = snd (try_body tsr entity types st sc)"
  by (cases "try_body tsr entity types st sc")
     (auto simp: loop_step_def split: option.splits if_splits)

lemma scan_loop_inv:
  assumes run: "scan_loop tsr entity types states sc = Inr sc'"
    and start: "P sc"
    and upd: "\<And>st score sc1. st \<in> set states \<Longrightarrow> P sc1 \<Longrightarrow> P (snd (update_best score st sc1))"
  shows "P sc'"
  using run start upd
proof (induction states arbitrary: sc)
  case Nil
  then show ?case by simp
next
  case (Cons st rest)
  from Cons.prems(1) obtain sc1 where
    step: "loop_step tsr entity types st sc = Inr sc1" and
    rest: "scan_loop tsr entity types rest sc1 = Inr sc'"
    by (auto split: sum.splits)
  have "P (snd (try_body tsr entity types st sc))"
    by (rule try_body_inv) (auto intro: Cons.prems)
  then have "P sc1" using loop_step_snd[OF step] by simp
  then show ?case using rest Cons.prems(3) by (intro Cons.IH[of sc1]) auto
qed

lemma candidate_score: "candidate st score = Inr c \<Longrightarrow> best_score c = score"
  by (auto simp: candidate_def err_bind_def split: sum.splits)

lemma update_best_cases:
  "snd (update_best score st sc) = sc
   \<or> (fst sc < score \<and> snd (update_best score st sc) = (score, snd sc))
   \<or> (fst sc < score \<and> (\<exists>c. candidate st score = Inr c \<and> snd (update_best score st sc) = (score, Some c)))"
  by (cases sc) (auto simp: update_best_def split: sum.splits)

lemma find_entity_fst:
  "fst (find_entity tsr self entity types srv) = Inr r \<Longrightarrow>
   \<exists>json_data. fst (get_state self srv) = Inr json_data \<and> find_entity_in tsr entity types json_data = Inr r"
  by (auto simp: find_entity_def split: prod.splits sum.splits)

lemma find_entity_of_payload:
  "fst (get_state self srv) = Inr json_data \<Longrightarrow>
   fst (find_entity tsr self entity types srv) = find_entity_in tsr entity types json_data"
  by (auto simp: find_entity_def split: prod.splits sum.splits)

lemma loop_step_excluded: "excluded types st \<Longrightarrow> loop_step tsr entity types st sc = Inr sc"
  by (cases st) (auto simp: loop_step_def try_body_def attempt_def split: option.splits json.splits)

lemma scan_loop_excluded:
  "\<forall>st \<in> set states. excluded types st \<Longrightarrow> scan_loop tsr entity types states sc = Inr sc"
  by (induction states) (simp_all add: loop_step_excluded)

lemma find_entity_in_excluded:
  "\<forall>st \<in> set states. excluded types st \<Longrightarrow> find_entity_in tsr entity types (JList states) = Inr None"
  by (simp add: find_entity_in_def scan_loop_excluded)

lemma scan_loop_snoc:
  "scan_loop tsr entity types (xs @ [x]) sc =
     (case scan_loop tsr entity types xs sc of
        Inl e \<Rightarrow> Inl e
      | Inr sc' \<Rightarrow> loop_step tsr entity types x sc')"
  by (induction xs arbitrary: sc) (auto split: sum.splits)

section \<open>Runs on the sample values\<close>

lemma get_state_serving: "get_state plain_client (serving data) = (Inr data, 
   \<lparr>pending = [], sent = [\<lparr>req_verb = GET, req_url = ''http://ha.local:8123/api/states'',
           req_headers = [(''Authorization'', ''Bearer abc''), (''Content-Type'', ''application/json'')],
           payload = None, req_verify = None, req_timeout = 10\<rparr>]\<rparr>)"
  by (simp add: get_state_def send_def raise_for_status_def serving_def plain_client_def TIMEOUT_def)

lemma lower_Lamp: "lower ''Lamp'' = ''lamp''"
  by (simp add: lower_def lower_char_def)

lemma find_lamp_in: "find_entity_in exact_tsr ''lamp'' [''light''] (JList [lamp_record]) = Inr (Some lamp_entity)"
  by (simp add: find_entity_in_def loop_step_def try_body_def attempt_def update_best_def candidate_def err_bind_def
      lamp_record_def exact_tsr_def lower_Lamp domain_of_def lamp_entity_def)

lemma find_lamp: "fst (find_entity exact_tsr plain_client ''lamp'' [''light''] (serving (JList [lamp_record])))
  = Inr (Some lamp_entity)"
  by (simp add: find_entity_def get_state_serving find_lamp_in)

lemma getitem_lamp:
  "getitem lamp_record ''entity_id'' = Inr (JStr ''light.lamp'')"
  "getitem lamp_record ''attributes'' = Inr (JObj [(''brightness'', JInt 80), (''friendly_name'', JStr ''Lamp'')])"
  "getitem lamp_record ''state'' = Inr (JStr ''on'')"
  by (simp_all add: lamp_record_def)

lemma getitem_nameless:
  "getitem nameless_lamp ''entity_id'' = Inr (JStr ''light.lamp'')"
  "getitem nameless_lamp ''attributes'' = Inr (JObj [(''brightness'', JInt 80)])"
  "getitem (JObj [(''brightness'', JInt 80)]) ''friendly_name'' = Inl KeyError"
  by (simp_all add: nameless_lamp_def)

lemma getitem_fan:
  "getitem fan_switch ''entity_id'' = Inr (JStr ''switch.fan'')"
  "getitem fan_switch ''attributes'' = Inr (JObj [(''friendly_name'', JStr ''Fan'')])"
  "getitem fan_switch ''state'' = Inr (JStr ''off'')"
  by (simp_all add: fan_switch_def)

lemma getitem_desk:
  "getitem desk_lamp ''entity_id'' = Inr (JStr ''light.desk'')"
  "getitem desk_lamp ''attributes''
     = Inr (JObj [(''brightness'', JInt 80), (''friendly_name'', JStr ''Desk'')])"
  "getitem desk_lamp ''state'' = Inl KeyError"
  by (simp_all add: desk_lamp_def)

lemma excluded_lamp: "excluded [''switch''] lamp_record"
  by (simp add: lamp_record_def domain_of_def)

lemma excluded_lamp_no_types: "excluded [] lamp_record"
  by (simp add: lamp_record_def)

lemma nameless_not_found:
  "find_entity_in exact_tsr ''light.lamp'' [''light''] (JList [nameless_lamp]) = Inr None"
  by (simp add: find_entity_in_def loop_step_def try_body_def attempt_def nameless_lamp_def domain_of_def)

section \<open>The floor of 50\<close>

lemma update_best_ok: "scan_ok sc \<Longrightarrow> scan_ok (snd (update_best score st sc))"
  using update_best_cases[of score st sc]
  by (auto simp: scan_ok_def dest: candidate_score)

lemma find_entity_in_score:
  assumes "find_entity_in tsr entity types json_data = Inr (Some c)"
  shows "50 < best_score c"
proof -
  from assms obtain states bs where s: "scan_loop tsr entity types states (50, None) = Inr (bs, Some c)"
    by (auto simp: find_entity_in_def split: if_splits sum.splits)
  have "scan_ok (bs, Some c)"
    by (rule scan_loop_inv[OF s]) (simp_all add: scan_ok_def update_best_ok[unfolded scan_ok_def])
  then show ?thesis by (simp add: scan_ok_def)
qed

text \<open>
  C1: whatever the payload, the scoring function and the utterance, an entity returned by
  \<^verbatim>\<open>find_entity\<close> carries a \<open>best_score\<close> strictly above 50.
\<close>

theorem find_entity_score_above_50:
  "fst (find_entity tsr self entity types srv) = Inr (Some c) \<Longrightarrow> 50 < best_score c"
  by (auto dest!: find_entity_fst find_entity_in_score)

theorem find_entity_score_above_50_witness:
  "fst (find_entity exact_tsr plain_client ''lamp'' [''light''] (serving (JList [lamp_record])))
     = Inr (Some lamp_entity) \<and> 50 < best_score lamp_entity"
  using find_entity_score_above_50[of exact_tsr plain_client "''lamp''" "[''light'']"
      "serving (JList [lamp_record])" lamp_entity]
  by (simp add: find_lamp)

section \<open>Token order\<close>

lemma tokens_to: "tokens (lower ''temperature outside'') = [''temperature'', ''outside'']"
  by (simp add: tokens_def lower_def lower_char_def)

lemma tokens_ot: "tokens (lower ''outside temperature'') = [''outside'', ''temperature'']"
  by (simp add: tokens_def lower_def lower_char_def)

lemma mset_to: "mset (tokens (lower ''temperature outside'')) = mset (tokens (lower ''outside temperature''))"
  by (simp add: tokens_to tokens_ot)

lemma process_and_sort_eq:
  assumes "mset (tokens (lower u1)) = mset (tokens (lower u2))"
  shows "process_and_sort u1 = process_and_sort u2"
proof -
  have "sort (tokens (lower u1)) = sort (tokens (lower u2))"
    by (rule properties_for_sort) (simp_all add: assms)
  then show ?thesis by (simp add: process_and_sort_def)
qed

lemma try_body_utterance:
  assumes "tsr u1 = tsr' u2"
  shows "try_body tsr u1 types st sc = try_body tsr' u2 types st sc"
proof -
  have h: "tsr u1 x = tsr' u2 x" for x using assms by (rule fun_cong)
  show ?thesis unfolding try_body_def h by (rule refl)
qed

lemma loop_step_utterance:
  "tsr u1 = tsr' u2 \<Longrightarrow> loop_step tsr u1 types st sc = loop_step tsr' u2 types st sc"
  by (simp add: loop_step_def try_body_utterance[of tsr u1 tsr' u2])

lemma scan_loop_utterance:
  "tsr u1 = tsr' u2 \<Longrightarrow> scan_loop tsr u1 types states sc = scan_loop tsr' u2 types states sc"
  by (induction states arbitrary: sc) (simp_all add: loop_step_utterance[of tsr u1 tsr' u2] cong: sum.case_cong)

lemma find_entity_in_utterance:
  "tsr u1 = tsr' u2 \<Longrightarrow> find_entity_in tsr u1 types json_data = find_entity_in tsr' u2 types json_data"
  by (simp add: find_entity_in_def scan_loop_utterance[of tsr u1 tsr' u2] cong: sum.case_cong)

lemma find_entity_utterance:
  "tsr u1 = tsr' u2 \<Longrightarrow> find_entity tsr self u1 types srv = find_entity tsr' self u2 types srv"
  by (simp add: find_entity_def find_entity_in_utterance[of tsr u1 tsr' u2] cong: prod.case_cong sum.case_cong)

text \<open>
  C2: two utterances with the same word tokens, in whatever order, make
  \<^verbatim>\<open>find_entity\<close> return the same thing on every catalog, for every domain list and
  every ratio: the scoring function compares the sorted tokens. "temperature outside" and
  "outside temperature" are such a pair.
\<close>

theorem find_entity_token_order:
  assumes "mset (tokens (lower u1)) = mset (tokens (lower u2))"
  shows "find_entity (token_sort_ratio ratio) self u1 types srv
       = find_entity (token_sort_ratio ratio) self u2 types srv"
proof -
  have "token_sort_ratio ratio u1 = token_sort_ratio ratio u2"
    using process_and_sort_eq[OF assms] by (simp add: token_sort_ratio_def fun_eq_iff)
  then show ?thesis by (rule find_entity_utterance)
qed

lemma pas1: "process_and_sort ''temperature outside'' = ''outside temperature''"
  by code_simp

lemma pas2: "process_and_sort ''outside temperature'' = ''outside temperature''"
  by code_simp

lemma lower_ot: "lower ''Outside Temperature'' = ''outside temperature''"
  by (simp add: lower_def lower_char_def)

lemma pas3: "process_and_sort ''sensor.outside_temp'' = ''sensor.outside_temp''"
  by code_simp

lemma lower_id: "lower ''sensor.outside_temp'' = ''sensor.outside_temp''"
  by (simp add: lower_def lower_char_def)

lemma find_outside: "find_entity_in (token_sort_ratio exact_tsr) ''temperature outside'' [''sensor'']
        (JList [outside_sensor]) = Inr (Some outside_entity)"
  by (simp add: find_entity_in_def loop_step_def try_body_def attempt_def update_best_def
        candidate_def err_bind_def outside_sensor_def lower_ot lower_id domain_of_def
        outside_entity_def token_sort_ratio_def pas1 pas2 pas3 exact_tsr_def)

lemma find_outside_swapped: "find_entity_in (token_sort_ratio exact_tsr) ''outside temperature'' [''sensor'']
        (JList [outside_sensor]) = Inr (Some outside_entity)"
  by (simp add: find_entity_in_def loop_step_def try_body_def attempt_def update_best_def
        candidate_def err_bind_def outside_sensor_def lower_ot lower_id domain_of_def
        outside_entity_def token_sort_ratio_def pas1 pas2 pas3 exact_tsr_def)

theorem find_entity_token_order_witness:
  "mset (tokens (lower ''temperature outside'')) = mset (tokens (lower ''outside temperature''))
   \<and> find_entity (token_sort_ratio exact_tsr) plain_client ''temperature outside'' [''sensor'']
        (serving (JList [outside_sensor]))
     = find_entity (token_sort_ratio exact_tsr) plain_client ''outside temperature'' [''sensor'']
        (serving (JList [outside_sensor]))
   \<and> fst (find_entity (token_sort_ratio exact_tsr) plain_client ''temperature outside''
        [''sensor''] (serving (JList [outside_sensor]))) = Inr (Some outside_entity)"
  using find_entity_token_order[of "''temperature outside''" "''outside temperature''" exact_tsr
      plain_client "[''sensor'']" "serving (JList [outside_sensor])"]
  by (simp add: mset_to find_entity_of_payload get_state_serving find_outside find_outside_swapped)

section \<open>The tie-break\<close>

text \<open>
  C3 fails on a catalog with an element that has a friendly name and no
  \<^verbatim>\<open>state\<close>: line 108 has raised the running best to that element's score when the dict
  display of line 113 raises \<open>KeyError\<close>, so the complete lamp behind it, which alone is
  resolved with score 100, no longer exceeds the running best and the result is none. This
  holds for every scoring function that gives identical strings 100 and nothing more.
\<close>

theorem stateless_record_blocks_later_match:
  assumes "tsr ''lamp'' ''lamp'' = 100" and "\<forall>a b. tsr a b \<le> 100"
  shows "find_entity_in tsr ''lamp'' [''light''] (JList [lamp_record]) = Inr (Some lamp_entity)
    \<and> find_entity_in tsr ''lamp'' [''light''] (JList [stateless_lamp, lamp_record]) = Inr None"
proof -
  have le: "\<not> 100 < tsr a b" for a b using assms(2) by (simp add: not_less)
  show ?thesis
    by (simp add: find_entity_in_def loop_step_def try_body_def attempt_def update_best_def
        candidate_def err_bind_def lamp_record_def stateless_lamp_def lower_Lamp domain_of_def
        lamp_entity_def assms(1) le)
qed

theorem stateless_record_blocks_later_match_witness:
  "exact_tsr ''lamp'' ''lamp'' = 100
   \<and> find_entity_in exact_tsr ''lamp'' [''light''] (JList [lamp_record]) = Inr (Some lamp_entity)
   \<and> find_entity_in exact_tsr ''lamp'' [''light''] (JList [stateless_lamp, lamp_record]) = Inr None"
  using stateless_record_blocks_later_match[of exact_tsr]
  by (simp add: exact_tsr_def)

lemma str_of_Some: "str_of r = Some s \<Longrightarrow> r = Inr (JStr s)"
  by (cases r rule: str_of.cases) auto

lemma eligibleD:
  assumes "eligible types st"
  obtains i a n s where "getitem st ''entity_id'' = Inr (JStr i)" "domain_of i \<in> set types"
    "getitem st ''attributes'' = Inr a" "getitem a ''friendly_name'' = Inr (JStr n)"
    "getitem st ''state'' = Inr s"
proof -
  from assms obtain i where i: "str_of (getitem st ''entity_id'') = Some i" and d: "domain_of i \<in> set types"
    and r: "(case getitem st ''attributes'' of
             Inl e \<Rightarrow> False
           | Inr a \<Rightarrow> str_of (getitem a ''friendly_name'') \<noteq> None \<and> \<not> isl (getitem st ''state''))"
    by (auto simp: eligible_def split: option.splits)
  from r obtain a where a: "getitem st ''attributes'' = Inr a"
    and n: "str_of (getitem a ''friendly_name'') \<noteq> None" and s: "\<not> isl (getitem st ''state'')"
    by (auto split: sum.splits)
  from n obtain n' where "str_of (getitem a ''friendly_name'') = Some n'" by auto
  moreover from s obtain s' where "getitem st ''state'' = Inr s'" by (cases "getitem st ''state''") auto
  ultimately show ?thesis using that i d a by (auto dest!: str_of_Some)
qed

lemma loop_step_eligible:
  assumes "eligible types st"
  shows "\<exists>c. candidate st (rec_score tsr entity st) = Inr c
     \<and> loop_step tsr entity types st (bs, be) =
         Inr (if bs < rec_score tsr entity st then (rec_score tsr entity st, Some c) else (bs, be))"
proof -
  from assms obtain i a n s where g: "getitem st ''entity_id'' = Inr (JStr i)" "domain_of i \<in> set types"
    "getitem st ''attributes'' = Inr a" "getitem a ''friendly_name'' = Inr (JStr n)"
    "getitem st ''state'' = Inr s" by (rule eligibleD)
  have cand: "candidate st score = Inr \<lparr>ent_id = JStr i, dev_name = JStr n, ent_state = s,
      best_score = score, attributes = a\<rparr>" for score
    using g by (simp add: candidate_def err_bind_def)
  have sc: "rec_score tsr entity st = max (tsr entity (lower n)) (tsr entity (lower i))"
    using g by (simp add: rec_score_def)
  show ?thesis
    using g by (auto simp: sc cand loop_step_def try_body_def attempt_def update_best_def max_def)
qed

lemma excluded_not_eligible: "excluded types st \<Longrightarrow> \<not> eligible types st"
  by (cases st) (auto simp: eligible_def split: option.splits json.splits)

lemma first_best_excluded:
  assumes "first_best tsr entity types xs sc" and "\<not> eligible types x"
  shows "first_best tsr entity types (xs @ [x]) sc"
proof -
  have nth: "j < length xs \<Longrightarrow> (xs @ [x]) ! j = xs ! j" for j by (simp add: nth_append)
  have all: "\<forall>j < length (xs @ [x]). eligible types ((xs @ [x]) ! j) \<longrightarrow>
      rec_score tsr entity ((xs @ [x]) ! j) \<le> fst sc"
    using assms by (auto simp: first_best_def nth_append less_Suc_eq)
  show ?thesis
  proof (cases "snd sc")
    case None
    then show ?thesis using assms all by (simp add: first_best_def)
  next
    case (Some c)
    with assms(1) obtain k where k: "k < length xs" "eligible types (xs ! k)"
      "rec_score tsr entity (xs ! k) = fst sc" "candidate (xs ! k) (fst sc) = Inr c"
      "\<forall>j < k. eligible types (xs ! j) \<longrightarrow> rec_score tsr entity (xs ! j) < fst sc"
      and b: "50 < fst sc" by (auto simp: first_best_def)
    have "\<exists>k < length (xs @ [x]). eligible types ((xs @ [x]) ! k)
        \<and> rec_score tsr entity ((xs @ [x]) ! k) = fst sc
        \<and> candidate ((xs @ [x]) ! k) (fst sc) = Inr c
        \<and> (\<forall>j < k. eligible types ((xs @ [x]) ! j) \<longrightarrow> rec_score tsr entity ((xs @ [x]) ! j) < fst sc)"
      using k by (intro exI[of _ k]) (simp add: nth_append)
    then show ?thesis using Some b all assms(1) by (simp add: first_best_def)
  qed
qed

lemma first_best_keep:
  assumes "first_best tsr entity types xs sc" and "rec_score tsr entity x \<le> fst sc"
  shows "first_best tsr entity types (xs @ [x]) sc"
proof -
  have all: "\<forall>j < length (xs @ [x]). eligible types ((xs @ [x]) ! j) \<longrightarrow>
      rec_score tsr entity ((xs @ [x]) ! j) \<le> fst sc"
    using assms by (auto simp: first_best_def nth_append less_Suc_eq)
  show ?thesis
  proof (cases "snd sc")
    case None
    then show ?thesis using assms all by (simp add: first_best_def)
  next
    case (Some c)
    with assms(1) obtain k where k: "k < length xs" "eligible types (xs ! k)"
      "rec_score tsr entity (xs ! k) = fst sc" "candidate (xs ! k) (fst sc) = Inr c"
      "\<forall>j < k. eligible types (xs ! j) \<longrightarrow> rec_score tsr entity (xs ! j) < fst sc"
      and b: "50 < fst sc" by (auto simp: first_best_def)
    have "\<exists>k < length (xs @ [x]). eligible types ((xs @ [x]) ! k)
        \<and> rec_score tsr entity ((xs @ [x]) ! k) = fst sc
        \<and> candidate ((xs @ [x]) ! k) (fst sc) = Inr c
        \<and> (\<forall>j < k. eligible types ((xs @ [x]) ! j) \<longrightarrow> rec_score tsr entity ((xs @ [x]) ! j) < fst sc)"
      using k by (intro exI[of _ k]) (simp add: nth_append)
    then show ?thesis using Some b all assms(1) by (simp add: first_best_def)
  qed
qed

lemma first_best_replace:
  assumes fb: "first_best tsr entity types xs sc" and el: "eligible types x"
    and gt: "fst sc < rec_score tsr entity x"
    and c: "candidate x (rec_score tsr entity x) = Inr c"
  shows "first_best tsr entity types (xs @ [x]) (rec_score tsr entity x, Some c)"
proof -
  let ?m = "rec_score tsr entity x"
  have lo: "50 < ?m" using fb gt by (simp add: first_best_def)
  have before: "\<forall>j < length xs. eligible types (xs ! j) \<longrightarrow> rec_score tsr entity (xs ! j) < ?m"
    using fb gt by (fastforce simp: first_best_def)
  have all: "\<forall>j < length (xs @ [x]). eligible types ((xs @ [x]) ! j) \<longrightarrow>
      rec_score tsr entity ((xs @ [x]) ! j) \<le> ?m"
    using before by (auto simp: nth_append less_Suc_eq dest: less_imp_le)
  have "\<exists>k < length (xs @ [x]). eligible types ((xs @ [x]) ! k)
        \<and> rec_score tsr entity ((xs @ [x]) ! k) = ?m
        \<and> candidate ((xs @ [x]) ! k) ?m = Inr c
        \<and> (\<forall>j < k. eligible types ((xs @ [x]) ! j) \<longrightarrow> rec_score tsr entity ((xs @ [x]) ! j) < ?m)"
    using el c before by (intro exI[of _ "length xs"]) (simp add: nth_append)
  then show ?thesis using lo all by (simp add: first_best_def)
qed

lemma scan_loop_first_best:
  assumes "\<forall>st \<in> set xs. eligible types st \<or> excluded types st"
  shows "\<exists>sc. scan_loop tsr entity types xs (50, None) = Inr sc \<and> first_best tsr entity types xs sc"
  using assms
proof (induction xs rule: rev_induct)
  case Nil
  then show ?case by (simp add: first_best_def)
next
  case (snoc x xs)
  then obtain sc where run: "scan_loop tsr entity types xs (50, None) = Inr sc"
    and fb: "first_best tsr entity types xs sc" by auto
  from snoc.prems have "eligible types x \<or> excluded types x" by simp
  then show ?case
  proof
    assume ex: "excluded types x"
    then have "loop_step tsr entity types x sc = Inr sc" by (rule loop_step_excluded)
    moreover have "first_best tsr entity types (xs @ [x]) sc"
      using fb excluded_not_eligible[OF ex] by (rule first_best_excluded)
    ultimately show ?thesis using run by (simp add: scan_loop_snoc)
  next
    assume el: "eligible types x"
    from loop_step_eligible[OF el, of tsr entity "fst sc" "snd sc"] obtain c where
      c: "candidate x (rec_score tsr entity x) = Inr c" and
      st: "loop_step tsr entity types x sc =
         Inr (if fst sc < rec_score tsr entity x then (rec_score tsr entity x, Some c) else sc)"
      by auto
    show ?thesis
    proof (cases "fst sc < rec_score tsr entity x")
      case True
      then show ?thesis
        using run st first_best_replace[OF fb el True c] by (simp add: scan_loop_snoc)
    next
      case False
      then have "rec_score tsr entity x \<le> fst sc" by simp
      from first_best_keep[OF fb this] show ?thesis
        using run st False by (simp add: scan_loop_snoc)
    qed
  qed
qed

text \<open>
  On a catalog whose elements are all complete or outside the domains, the tie-break is
  first-wins: the result is none when no score exceeds 50, and otherwise it is built from
  the earliest element whose score is the maximum.
\<close>

lemma first_wins_on_complete_records:
  assumes "\<forall>st \<in> set xs. eligible types st \<or> excluded types st"
  shows "(find_entity_in tsr entity types (JList xs) = Inr None
            \<and> (\<forall>j < length xs. eligible types (xs ! j) \<longrightarrow> rec_score tsr entity (xs ! j) \<le> 50))
       \<or> (\<exists>c k. find_entity_in tsr entity types (JList xs) = Inr (Some c)
            \<and> k < length xs \<and> eligible types (xs ! k)
            \<and> candidate (xs ! k) (rec_score tsr entity (xs ! k)) = Inr c
            \<and> 50 < rec_score tsr entity (xs ! k)
            \<and> (\<forall>j < length xs. eligible types (xs ! j) \<longrightarrow>
                  rec_score tsr entity (xs ! j) \<le> rec_score tsr entity (xs ! k))
            \<and> (\<forall>j < k. eligible types (xs ! j) \<longrightarrow>
                  rec_score tsr entity (xs ! j) < rec_score tsr entity (xs ! k)))"
proof -
  from scan_loop_first_best[OF assms, of tsr entity] obtain bs be where
    run: "scan_loop tsr entity types xs (50, None) = Inr (bs, be)" and
    fb: "first_best tsr entity types xs (bs, be)" by auto
  have res: "find_entity_in tsr entity types (JList xs) = Inr be"
  proof (cases xs)
    case Nil
    with run show ?thesis by (simp add: find_entity_in_def)
  next
    case (Cons a list)
    with run show ?thesis by (simp add: find_entity_in_def)
  qed
  show ?thesis
  proof (cases be)
    case None
    then show ?thesis using fb res by (auto simp: first_best_def)
  next
    case (Some c)
    with fb obtain k where "k < length xs" "eligible types (xs ! k)"
      "rec_score tsr entity (xs ! k) = bs" "candidate (xs ! k) bs = Inr c"
      "\<forall>j < k. eligible types (xs ! j) \<longrightarrow> rec_score tsr entity (xs ! j) < bs" "50 < bs"
      "\<forall>j < length xs. eligible types (xs ! j) \<longrightarrow> rec_score tsr entity (xs ! j) \<le> bs"
      by (auto simp: first_best_def)
    then show ?thesis using res Some by (intro disjI2 exI[of _ c] exI[of _ k]) simp
  qed
qed

section \<open>The scan of the attribute reader\<close>

lemma attr_loop_skip:
  assumes "\<forall>st \<in> set pre. \<exists>i. getitem st ''entity_id'' = Inr i \<and> i \<noteq> JStr entity"
  shows "attr_loop entity (pre @ rest) = attr_loop entity rest"
  using assms by (induction pre) auto

lemma attr_loop_match:
  assumes "\<forall>st \<in> set pre. \<exists>i. getitem st ''entity_id'' = Inr i \<and> i \<noteq> JStr entity"
    and "getitem r ''entity_id'' = Inr (JStr entity)"
  shows "attr_loop entity (pre @ r # post) =
     (case attr_summary r of Inl e \<Rightarrow> Inl e | Inr s \<Rightarrow> Inr (Some s))"
  using assms by (simp add: attr_loop_skip)

lemma find_entity_attr_of_payload:
  "fst (get_state self srv) = Inr json_data \<Longrightarrow>
   fst (find_entity_attr self entity srv) = find_entity_attr_in entity json_data"
  by (auto simp: find_entity_attr_def split: prod.splits sum.splits)

lemma startswith_light:
  assumes "CHR ''.'' \<in> set s"
  shows "startswith s ''light.'' \<longleftrightarrow> domain_of s = ''light''"
proof
  assume "startswith s ''light.''"
  then have "take (length ''light.'') s = ''light.''" by (simp only: startswith_def)
  then obtain t where "s = ''light.'' @ t" by (metis append_take_drop_id)
  then show "domain_of s = ''light''" by (simp add: domain_of_def)
next
  assume d: "domain_of s = ''light''"
  from assms have "dropWhile (\<lambda>c. c \<noteq> CHR ''.'') s \<noteq> []" by simp
  moreover have "hd (dropWhile (\<lambda>c. c \<noteq> CHR ''.'') s) = CHR ''.''"
    using hd_dropWhile[OF calculation] by simp
  ultimately obtain t where "dropWhile (\<lambda>c. c \<noteq> CHR ''.'') s = CHR ''.'' # t"
    by (cases "dropWhile (\<lambda>c. c \<noteq> CHR ''.'') s") auto
  then have "s = ''light'' @ CHR ''.'' # t"
    using d takeWhile_dropWhile_id[of "\<lambda>c. c \<noteq> CHR ''.''" s] by (simp add: domain_of_def)
  then show "startswith s ''light.''" by (simp add: startswith_def)
qed

lemma unit_of_value:
  assumes "getitem r ''entity_id'' = Inr (JStr entity)"
  shows "unit_of r (JObj kvs) =
     Inr (case map_of kvs (if startswith entity ''light.'' then ''brightness''
                           else ''unit_of_measurement'') of
            None \<Rightarrow> JStr [] | Some v \<Rightarrow> v)"
  using assms by (simp add: unit_of_def err_bind_def split: option.splits)

section \<open>Lookup failures in a record\<close>

lemma loop_step_no_KeyError: "loop_step tsr entity types st sc \<noteq> Inl KeyError"
  by (auto simp: loop_step_def split: prod.splits option.splits)

lemma scan_loop_no_KeyError: "scan_loop tsr entity types states sc \<noteq> Inl KeyError"
  by (induction states arbitrary: sc) (auto simp: loop_step_no_KeyError split: sum.splits)

lemma py_iter_no_KeyError: "py_iter j \<noteq> Inl KeyError"
  by (cases j) auto

lemma find_entity_in_no_KeyError: "find_entity_in tsr entity types json_data \<noteq> Inl KeyError"
  using scan_loop_no_KeyError py_iter_no_KeyError
  by (auto simp: find_entity_in_def split: sum.splits)

lemma loop_step_skips:
  assumes "getitem st ''entity_id'' = Inl KeyError
     \<or> (\<exists>s. getitem st ''entity_id'' = Inr (JStr s)
          \<and> (getitem st ''attributes'' = Inl KeyError
              \<or> (\<exists>a. getitem st ''attributes'' = Inr a \<and> getitem a ''friendly_name'' = Inl KeyError)))"
  shows "loop_step tsr entity types st sc = Inr sc"
  using assms by (auto simp: loop_step_def try_body_def attempt_def)

lemma find_entity_no_KeyError:
  "fst (get_state self srv) = Inr json_data \<Longrightarrow> fst (find_entity tsr self entity types srv) \<noteq> Inl KeyError"
  by (simp add: find_entity_of_payload find_entity_in_no_KeyError)

lemma attr_summary_nameless:
  assumes "getitem r ''entity_id'' = Inr (JStr entity)"
    and "getitem r ''attributes'' = Inr (JObj kvs)"
    and "map_of kvs ''friendly_name'' = None"
  shows "attr_summary r = Inl KeyError"
  using assms unit_of_value[OF assms(1), of kvs]
  by (simp add: attr_summary_def err_bind_def)

lemma find_entity_attr_nameless:
  assumes fetch: "fst (get_state self srv) = Inr (JList (pre @ r # post))"
    and pre: "\<forall>x \<in> set pre. \<exists>i. getitem x ''entity_id'' = Inr i \<and> i \<noteq> JStr entity"
    and match: "getitem r ''entity_id'' = Inr (JStr entity)"
    and attrs: "getitem r ''attributes'' = Inr (JObj kvs)"
    and nm: "map_of kvs ''friendly_name'' = None"
  shows "fst (find_entity_attr self entity srv) = Inl KeyError"
  using attr_loop_match[OF pre match, of post] attr_summary_nameless[OF match attrs nm]
  by (simp add: find_entity_attr_of_payload[OF fetch] find_entity_attr_in_def)

text \<open>
  C4, as the code has it. In \<^verbatim>\<open>find_entity\<close> an element without \<^verbatim>\<open>entity_id\<close>, without
  \<^verbatim>\<open>attributes\<close> or without \<^verbatim>\<open>friendly_name\<close> leaves the scan as it was, and once the
  payload is fetched the call never raises \<open>KeyError\<close>. \<^verbatim>\<open>find_entity_attr\<close> recovers
  only the missing unit attribute, which becomes the empty string; when the element whose
  id matches has no \<^verbatim>\<open>friendly_name\<close>, the \<open>KeyError\<close> reaches the caller.
\<close>

theorem per_record_key_errors:
  "(fst (get_state self srv) = Inr json_data \<longrightarrow>
      fst (find_entity tsr self entity types srv) \<noteq> Inl KeyError)
   \<and> (getitem st ''entity_id'' = Inl KeyError
        \<or> (\<exists>s. getitem st ''entity_id'' = Inr (JStr s)
             \<and> (getitem st ''attributes'' = Inl KeyError
                 \<or> (\<exists>a. getitem st ''attributes'' = Inr a
                       \<and> getitem a ''friendly_name'' = Inl KeyError))) \<longrightarrow>
      loop_step tsr entity types st sc = Inr sc)
   \<and> (getitem r' ''entity_id'' = Inr (JStr entity')
        \<and> map_of kvs' (if startswith entity' ''light.'' then ''brightness''
                         else ''unit_of_measurement'') = None \<longrightarrow>
      unit_of r' (JObj kvs') = Inr (JStr []))
   \<and> (fst (get_state self srv) = Inr (JList (pre @ r # post))
        \<and> (\<forall>x \<in> set pre. \<exists>i. getitem x ''entity_id'' = Inr i \<and> i \<noteq> JStr entity)
        \<and> getitem r ''entity_id'' = Inr (JStr entity)
        \<and> getitem r ''attributes'' = Inr (JObj kvs)
        \<and> map_of kvs ''friendly_name'' = None \<longrightarrow>
      fst (find_entity_attr self entity srv) = Inl KeyError)"
proof -
  have unit: "getitem r' ''entity_id'' = Inr (JStr entity')
        \<and> map_of kvs' (if startswith entity' ''light.'' then ''brightness''
                         else ''unit_of_measurement'') = None \<longrightarrow>
      unit_of r' (JObj kvs') = Inr (JStr [])"
    using unit_of_value[of r' entity' kvs'] by simp
  show ?thesis
    using find_entity_no_KeyError[of self srv json_data tsr entity types]
      loop_step_skips[of st tsr entity types sc]
      find_entity_attr_nameless[of self srv pre r post entity kvs] unit
    by blast
qed

theorem per_record_key_errors_witness:
  "fst (get_state plain_client (serving (JList ([] @ nameless_lamp # [lamp_record]))))
      = Inr (JList ([] @ nameless_lamp # [lamp_record]))
   \<and> getitem nameless_lamp ''entity_id'' = Inr (JStr ''light.lamp'')
   \<and> getitem nameless_lamp ''attributes'' = Inr (JObj [(''brightness'', JInt 80)])
   \<and> getitem (JObj [(''brightness'', JInt 80)]) ''friendly_name'' = Inl KeyError
   \<and> map_of [(''brightness'', JInt 80)] ''friendly_name'' = None
   \<and> fst (find_entity exact_tsr plain_client ''light.lamp'' [''light'']
            (serving (JList ([] @ nameless_lamp # [lamp_record])))) \<noteq> Inl KeyError
   \<and> loop_step exact_tsr ''light.lamp'' [''light''] nameless_lamp (50, None) = Inr (50, None)
   \<and> getitem (JObj []) ''entity_id'' = Inl KeyError
   \<and> loop_step exact_tsr ''light.lamp'' [''light''] (JObj []) (50, None) = Inr (50, None)
   \<and> getitem fan_switch ''entity_id'' = Inr (JStr ''switch.fan'')
   \<and> map_of [(''friendly_name'', JStr ''Fan'')] ''unit_of_measurement'' = None
   \<and> unit_of fan_switch (JObj [(''friendly_name'', JStr ''Fan'')]) = Inr (JStr [])
   \<and> fst (find_entity_attr plain_client ''light.lamp''
            (serving (JList ([] @ nameless_lamp # [lamp_record])))) = Inl KeyError"
  using per_record_key_errors[where self = plain_client
      and srv = "serving (JList ([] @ nameless_lamp # [lamp_record]))"
      and json_data = "JList ([] @ nameless_lamp # [lamp_record])" and tsr = exact_tsr
      and entity = "''light.lamp''" and types = "[''light'']" and st = nameless_lamp
      and sc = "(50, None)" and r' = fan_switch and entity' = "''switch.fan''"
      and kvs' = "[(''friendly_name'', JStr ''Fan'')]" and pre = "[]" and r = nameless_lamp
      and post = "[lamp_record]" and kvs = "[(''brightness'', JInt 80)]"]
    per_record_key_errors[where self = plain_client
      and srv = "serving (JList ([] @ nameless_lamp # [lamp_record]))"
      and json_data = "JList ([] @ nameless_lamp # [lamp_record])" and tsr = exact_tsr
      and entity = "''light.lamp''" and types = "[''light'']" and st = "JObj []"
      and sc = "(50, None)" and r' = fan_switch and entity' = "''switch.fan''"
      and kvs' = "[(''friendly_name'', JStr ''Fan'')]" and pre = "[]" and r = nameless_lamp
      and post = "[lamp_record]" and kvs = "[(''brightness'', JInt 80)]"]
  by (simp add: get_state_serving getitem_nameless getitem_fan startswith_def)

text \<open>
  C4 as stated fails: on a catalog whose first element lacks \<^verbatim>\<open>friendly_name\<close>,
  \<^verbatim>\<open>find_entity_attr\<close> for that element's id raises \<open>KeyError\<close>.
\<close>

theorem find_entity_attr_raises_KeyError:
  "fst (find_entity_attr plain_client ''light.lamp'' (serving (JList [nameless_lamp, lamp_record])))
     = Inl KeyError"
  by (simp add: find_entity_attr_def get_state_serving find_entity_attr_in_def nameless_lamp_def
      attr_summary_def unit_of_def err_bind_def startswith_def)

section \<open>The constructor\<close>

lemma init_with_all_keys:
  assumes "map_of config ''ssl'' = Some s" and "map_of config ''verify'' = Some v"
    and "map_of config ''ip_address'' = Some ip_address" and "map_of config ''token'' = Some token"
    and "map_of config ''port_number'' = Some port_number"
  shows "\<exists>c. HomeAssistantClient_init config = Inr c
           \<and> ssl c = (if cfg_truthy s then s else CBool False)
           \<and> verify c = (if cfg_truthy v then v else CBool True)"
  using assms by (simp add: HomeAssistantClient_init_def cfg_get_def err_bind_def py_or_def Let_def)

lemma init_with_missing_key:
  assumes "map_of config ''ssl'' = None \<or> map_of config ''verify'' = None
     \<or> map_of config ''ip_address'' = None \<or> map_of config ''token'' = None
     \<or> map_of config ''port_number'' = None"
  shows "HomeAssistantClient_init config = Inl KeyError"
  using assms
  by (auto simp: HomeAssistantClient_init_def cfg_get_def err_bind_def split: option.splits)

text \<open>
  C5, as the code has it: for a configuration that has the five keys, a falsy \<open>ssl\<close>
  becomes \<open>False\<close> and a falsy \<open>verify\<close> (an explicit \<open>False\<close> included) becomes
  \<open>True\<close>, and a truthy value is kept as it is; a configuration that lacks one of the
  five keys gives no client, the constructor raises \<open>KeyError\<close>.
\<close>

theorem init_ssl_verify:
  "(map_of config ''ssl'' = Some s \<and> map_of config ''verify'' = Some v
      \<and> map_of config ''ip_address'' = Some ip_address \<and> map_of config ''token'' = Some token
      \<and> map_of config ''port_number'' = Some port_number \<longrightarrow>
    (\<exists>c. HomeAssistantClient_init config = Inr c
           \<and> ssl c = (if cfg_truthy s then s else CBool False)
           \<and> verify c = (if cfg_truthy v then v else CBool True)))
   \<and> (map_of config ''ssl'' = None \<or> map_of config ''verify'' = None
      \<or> map_of config ''ip_address'' = None \<or> map_of config ''token'' = None
      \<or> map_of config ''port_number'' = None \<longrightarrow>
    HomeAssistantClient_init config = Inl KeyError)"
  using init_with_all_keys[of config s v ip_address token port_number]
    init_with_missing_key[of config]
  by blast

theorem init_ssl_verify_witness:
  "map_of cfg_falsy ''ssl'' = Some CNone \<and> map_of cfg_falsy ''verify'' = Some (CBool False)
   \<and> map_of cfg_falsy ''ip_address'' = Some (CStr ''ha.local'')
   \<and> map_of cfg_falsy ''token'' = Some (CStr ''abc'')
   \<and> map_of cfg_falsy ''port_number'' = Some (CInt 8123)
   \<and> (\<exists>c. HomeAssistantClient_init cfg_falsy = Inr c \<and> ssl c = CBool False \<and> verify c = CBool True)
   \<and> map_of cfg_without_ssl ''ssl'' = None
   \<and> HomeAssistantClient_init cfg_without_ssl = Inl KeyError"
  using init_ssl_verify[of cfg_falsy CNone "CBool False" "CStr ''ha.local''" "CStr ''abc''" "CInt 8123"]
    init_ssl_verify[of cfg_without_ssl CNone "CBool False" "CStr ''ha.local''" "CStr ''abc''"
      "CInt 8123"]
  by (simp add: cfg_falsy_def cfg_without_ssl_def)

text \<open>
  C5 as stated fails: a configuration without the key \<^verbatim>\<open>ssl\<close> gives no client, the
  constructor raises \<open>KeyError\<close>.
\<close>

theorem init_missing_key_raises:
  "map_of cfg_without_ssl ''ssl'' = None
   \<and> HomeAssistantClient_init cfg_without_ssl = Inl KeyError"
  by (simp add: HomeAssistantClient_init_def cfg_get_def err_bind_def cfg_without_ssl_def)

lemma digits_8123: "digits 8123 = ''8123''"
  by (simp add: digits.simps)

lemma init_falsy_value:
  "HomeAssistantClient_init cfg_falsy =
     Inr \<lparr>ssl = CBool False, verify = CBool True, url = ''http://ha.local:8123'',
          headers = [(''Authorization'', ''Bearer abc''), (''Content-Type'', ''application/json'')]\<rparr>"
  by (simp add: HomeAssistantClient_init_def cfg_get_def err_bind_def cfg_falsy_def py_or_def digits_8123)

section \<open>The liveness check\<close>

lemma get_state_send:
  "fst (get_state self srv) =
     (case pending srv of
        [] \<Rightarrow> Inl RequestsConnectionError
      | Inl e # rest \<Rightarrow> Inl e
      | Inr resp # rest \<Rightarrow>
          (case raise_for_status resp of Inl e \<Rightarrow> Inl e | Inr u \<Rightarrow> json_result resp))"
  by (simp add: get_state_def send_def Let_def split: list.splits sum.splits)

lemma connected_fst:
  "fst (connected_ha self srv) =
     (case fst (get_state self srv) of
        Inr d \<Rightarrow> Inr True
      | Inl e \<Rightarrow> if caught_by_connected e then Inr False else Inl e)"
  by (cases "get_state self srv") (auto simp: connected_ha_def split: sum.splits)

lemma caught_by_connected_iff:
  "caught_by_connected e \<longleftrightarrow>
     e = Timeout \<or> e = ConnectionError \<or> e = RequestsConnectionError \<or> e = HTTPError
     \<or> e = JSONDecodeError \<or> e = RequestException"
  by (cases e) (simp_all add: caught_by_connected_def)

lemma connected_True_iff:
  "fst (connected_ha self srv) = Inr True \<longleftrightarrow> (\<exists>d. fst (get_state self srv) = Inr d)"
  by (auto simp: connected_fst split: sum.splits)

lemma connected_False_iff:
  "fst (connected_ha self srv) = Inr False \<longleftrightarrow>
     (\<exists>e. fst (get_state self srv) = Inl e \<and> caught_by_connected e)"
  by (auto simp: connected_fst split: sum.splits)

lemma connected_propagates:
  "fst (get_state self srv) = Inl e \<Longrightarrow> \<not> caught_by_connected e \<Longrightarrow> fst (connected_ha self srv) = Inl e"
  by (simp add: connected_fst)

lemma connected_transport_failure:
  "pending srv = Inl e # rest \<Longrightarrow> spec_transport_error e \<Longrightarrow> fst (connected_ha self srv) = Inr False"
  by (auto simp: connected_fst get_state_send spec_transport_error_def caught_by_connected_def)

lemma connected_fetch_ok:
  "pending srv = Inr resp # rest \<Longrightarrow> raise_for_status resp = Inr () \<Longrightarrow> json_result resp = Inr d
   \<Longrightarrow> fst (connected_ha self srv) = Inr True"
  by (simp add: connected_fst get_state_send)

lemma connected_bad_answer:
  assumes "pending srv = Inr resp # rest"
    and "raise_for_status resp = Inl HTTPError \<or> json_result resp = Inl JSONDecodeError"
  shows "fst (connected_ha self srv) = Inr False"
proof (cases "raise_for_status resp")
  case (Inl e)
  then have "e = HTTPError" by (simp add: raise_for_status_def split: if_splits)
  with Inl assms(1) show ?thesis
    by (simp add: connected_fst get_state_send caught_by_connected_def)
next
  case (Inr u)
  with assms show ?thesis
    by (simp add: connected_fst get_state_send caught_by_connected_def)
qed

lemma fetch_error_passed_on:
  assumes "fst (get_state self srv) = Inl e"
  shows "fst (find_entity tsr self entity types srv) = Inl e
     \<and> fst (find_entity_attr self entity srv) = Inl e"
  using assms
  by (cases "get_state self srv") (simp add: find_entity_def find_entity_attr_def)

text \<open>
  C6, as the code has it: \<^verbatim>\<open>connected\<close> returns true exactly when the state fetch
  succeeds, whatever the payload, and false exactly when the fetch raises \<open>Timeout\<close>,
  \<open>ConnectionError\<close> or a \<open>RequestException\<close>: a connection failure, a timeout, the HTTP
  status error of a non-OK response, the decode error of a body that is not JSON. A
  \<open>KeyError\<close>, \<open>TypeError\<close> or \<open>AttributeError\<close> propagates. The errors of the fetch are
  swallowed only here: \<^verbatim>\<open>find_entity\<close> and \<^verbatim>\<open>find_entity_attr\<close> pass each of them on.
\<close>

theorem connected_outcome:
  "(fst (connected_ha self srv) = Inr True \<longleftrightarrow> (\<exists>d. fst (get_state self srv) = Inr d))
   \<and> (fst (connected_ha self srv) = Inr False \<longleftrightarrow>
        (\<exists>e. fst (get_state self srv) = Inl e
          \<and> (e = Timeout \<or> e = ConnectionError \<or> e = RequestsConnectionError \<or> e = HTTPError
               \<or> e = JSONDecodeError \<or> e = RequestException)))
   \<and> (fst (get_state self srv) = Inl e' \<and> e' \<in> {KeyError, TypeError, AttributeError}
        \<longrightarrow> fst (connected_ha self srv) = Inl e')
   \<and> (pending srv = Inl e # rest \<and> spec_transport_error e \<longrightarrow> fst (connected_ha self srv) = Inr False)
   \<and> (pending srv = Inr resp # rest \<and> raise_for_status resp = Inr () \<and> json_result resp = Inr d
        \<longrightarrow> fst (connected_ha self srv) = Inr True)
   \<and> (pending srv = Inr resp # rest
        \<and> (raise_for_status resp = Inl HTTPError \<or> json_result resp = Inl JSONDecodeError)
        \<longrightarrow> fst (connected_ha self srv) = Inr False)
   \<and> (fst (get_state self srv) = Inl e'' \<longrightarrow>
        fst (find_entity tsr self entity types srv) = Inl e''
        \<and> fst (find_entity_attr self entity srv) = Inl e'')"
proof -
  have "fst (get_state self srv) = Inl e' \<and> e' \<in> {KeyError, TypeError, AttributeError}
        \<longrightarrow> fst (connected_ha self srv) = Inl e'"
    using connected_propagates[of self srv e'] by (auto simp: caught_by_connected_iff)
  moreover have "pending srv = Inr resp # rest
        \<and> (raise_for_status resp = Inl HTTPError \<or> json_result resp = Inl JSONDecodeError)
        \<longrightarrow> fst (connected_ha self srv) = Inr False"
    using connected_bad_answer[of srv resp rest self] by blast
  moreover have "fst (get_state self srv) = Inl e'' \<longrightarrow>
        fst (find_entity tsr self entity types srv) = Inl e''
        \<and> fst (find_entity_attr self entity srv) = Inl e''"
    using fetch_error_passed_on[of self srv e'' tsr entity types] by blast
  ultimately show ?thesis
    using connected_True_iff[of self srv] connected_False_iff[of self srv]
      connected_transport_failure[of srv e rest self] connected_fetch_ok[of srv resp rest d self]
    by (simp add: caught_by_connected_iff)
qed

lemma get_state_samples:
  "fst (get_state plain_client timing_out) = Inl Timeout"
  "fst (get_state plain_client not_json) = Inl JSONDecodeError"
  "fst (get_state plain_client failing_call) = Inl TypeError"
  "fst (get_state plain_client (replying 404 JNull)) = Inl HTTPError"
  "fst (get_state plain_client (replying 200 JNull)) = Inr JNull"
  by (simp_all add: get_state_send timing_out_def not_json_def failing_call_def replying_def
      raise_for_status_def)

lemma pending_samples:
  "pending timing_out = [Inl Timeout]"
  "pending failing_call = [Inl TypeError]"
  "pending not_json = [Inr \<lparr>status_code = 200, json_result = Inl JSONDecodeError\<rparr>]"
  "pending (replying code data) = [Inr \<lparr>status_code = code, json_result = Inr data\<rparr>]"
  by (simp_all add: timing_out_def failing_call_def not_json_def replying_def)

theorem connected_outcome_witness:
  "fst (get_state plain_client failing_call) = Inl TypeError
   \<and> fst (connected_ha plain_client failing_call) = Inl TypeError
   \<and> pending timing_out = Inl Timeout # [] \<and> spec_transport_error Timeout
   \<and> fst (connected_ha plain_client timing_out) = Inr False
   \<and> fst (find_entity exact_tsr plain_client ''lamp'' [''light''] timing_out) = Inl Timeout
   \<and> fst (find_entity_attr plain_client ''lamp'' timing_out) = Inl Timeout
   \<and> pending (replying 200 JNull) = Inr \<lparr>status_code = 200, json_result = Inr JNull\<rparr> # []
   \<and> raise_for_status \<lparr>status_code = 200, json_result = Inr JNull\<rparr> = Inr ()
   \<and> fst (connected_ha plain_client (replying 200 JNull)) = Inr True
   \<and> pending not_json = Inr \<lparr>status_code = 200, json_result = Inl JSONDecodeError\<rparr> # []
   \<and> fst (connected_ha plain_client not_json) = Inr False"
  using connected_outcome[where self = plain_client and srv = failing_call and e' = TypeError
      and e = Timeout and rest = "[]" and resp = "\<lparr>status_code = 200, json_result = Inr JNull\<rparr>"
      and d = JNull and e'' = Timeout and tsr = exact_tsr and entity = "''lamp''"
      and types = "[''light'']"]
    connected_outcome[where self = plain_client and srv = timing_out and e' = TypeError
      and e = Timeout and rest = "[]" and resp = "\<lparr>status_code = 200, json_result = Inr JNull\<rparr>"
      and d = JNull and e'' = Timeout and tsr = exact_tsr and entity = "''lamp''"
      and types = "[''light'']"]
    connected_outcome[where self = plain_client and srv = "replying 200 JNull" and e' = TypeError
      and e = Timeout and rest = "[]" and resp = "\<lparr>status_code = 200, json_result = Inr JNull\<rparr>"
      and d = JNull and e'' = Timeout and tsr = exact_tsr and entity = "''lamp''"
      and types = "[''light'']"]
    connected_outcome[where self = plain_client and srv = not_json and e' = TypeError
      and e = Timeout and rest = "[]"
      and resp = "\<lparr>status_code = 200, json_result = Inl JSONDecodeError\<rparr>"
      and d = JNull and e'' = Timeout and tsr = exact_tsr and entity = "''lamp''"
      and types = "[''light'']"]
  by (simp add: get_state_samples pending_samples raise_for_status_def spec_transport_error_def)

text \<open>
  C6 as stated fails: the server answers 404, nothing fails to connect and nothing times
  out, and \<^verbatim>\<open>connected\<close> returns false.
\<close>

theorem connected_false_on_http_status:
  "fst (connected_ha plain_client (replying 404 JNull)) = Inr False
   \<and> fst (get_state plain_client (replying 404 JNull)) = Inl HTTPError
   \<and> \<not> spec_transport_error HTTPError"
  by (simp add: connected_fst get_state_samples caught_by_connected_def spec_transport_error_def)

section \<open>The unit of an entity\<close>

lemma getitem_other_key:
  "getitem r k = Inr v \<Longrightarrow> getitem r k' = Inl e \<Longrightarrow> e = KeyError"
  by (cases r) (auto split: option.splits)

text \<open>
  C7, as the code has it. When the scan of \<^verbatim>\<open>find_entity_attr\<close> reaches an element whose
  id is exactly the one asked for (the elements before it being dicts with other ids) and
  whose attributes are a dict, the unit is the \<^verbatim>\<open>brightness\<close> attribute if the id starts
  with \<^verbatim>\<open>light.\<close> and the \<^verbatim>\<open>unit_of_measurement\<close> attribute otherwise, and the empty
  string, not an error, when that attribute is absent. The summary with this unit is
  returned when the element has a \<^verbatim>\<open>friendly_name\<close> and a \<^verbatim>\<open>state\<close>; without one of
  them the call raises \<open>KeyError\<close>. For an id that contains a dot, to start with
  \<^verbatim>\<open>light.\<close> is to have the domain \<^verbatim>\<open>light\<close>.
\<close>

theorem find_entity_attr_unit:
  assumes fetch: "fst (get_state self srv) = Inr (JList (pre @ r # post))"
    and pre: "\<forall>st \<in> set pre. \<exists>i. getitem st ''entity_id'' = Inr i \<and> i \<noteq> JStr entity"
    and match: "getitem r ''entity_id'' = Inr (JStr entity)"
    and attrs: "getitem r ''attributes'' = Inr (JObj kvs)"
  shows "fst (find_entity_attr self entity srv) =
     (case map_of kvs ''friendly_name'' of
        None \<Rightarrow> Inl KeyError
      | Some n \<Rightarrow>
          (case getitem r ''state'' of
             Inl e \<Rightarrow> Inl KeyError
           | Inr s \<Rightarrow>
               Inr (Some \<lparr>unit_measure =
                            (case map_of kvs (if startswith entity ''light.'' then ''brightness''
                                              else ''unit_of_measurement'') of
                               None \<Rightarrow> JStr [] | Some v \<Rightarrow> v),
                          name = n, state = s\<rparr>)))
     \<and> (CHR ''.'' \<in> set entity \<longrightarrow>
          startswith entity ''light.'' = (domain_of entity = ''light''))"
proof -
  have "attr_summary r =
     (case map_of kvs ''friendly_name'' of
        None \<Rightarrow> Inl KeyError
      | Some n \<Rightarrow>
          (case getitem r ''state'' of
             Inl e \<Rightarrow> Inl KeyError
           | Inr s \<Rightarrow>
               Inr \<lparr>unit_measure =
                            (case map_of kvs (if startswith entity ''light.'' then ''brightness''
                                              else ''unit_of_measurement'') of
                               None \<Rightarrow> JStr [] | Some v \<Rightarrow> v),
                          name = n, state = s\<rparr>))"
    using attrs unit_of_value[OF match, of kvs] getitem_other_key[OF match, of "''state''"]
    by (auto simp: attr_summary_def err_bind_def split: option.splits sum.splits)
  then have "fst (find_entity_attr self entity srv) =
     (case map_of kvs ''friendly_name'' of
        None \<Rightarrow> Inl KeyError
      | Some n \<Rightarrow>
          (case getitem r ''state'' of
             Inl e \<Rightarrow> Inl KeyError
           | Inr s \<Rightarrow>
               Inr (Some \<lparr>unit_measure =
                            (case map_of kvs (if startswith entity ''light.'' then ''brightness''
                                              else ''unit_of_measurement'') of
                               None \<Rightarrow> JStr [] | Some v \<Rightarrow> v),
                          name = n, state = s\<rparr>)))"
    using attr_loop_match[OF pre match, of post]
    by (simp add: find_entity_attr_of_payload[OF fetch] find_entity_attr_in_def
        split: option.splits sum.splits)
  then show ?thesis using startswith_light[of entity] by blast
qed

theorem find_entity_attr_unit_witness:
  "fst (get_state plain_client (serving (JList ([] @ lamp_record # [fan_switch]))))
      = Inr (JList ([] @ lamp_record # [fan_switch]))
   \<and> getitem lamp_record ''entity_id'' = Inr (JStr ''light.lamp'')
   \<and> getitem lamp_record ''attributes''
        = Inr (JObj [(''brightness'', JInt 80), (''friendly_name'', JStr ''Lamp'')])
   \<and> fst (find_entity_attr plain_client ''light.lamp''
          (serving (JList ([] @ lamp_record # [fan_switch]))))
        = Inr (Some \<lparr>unit_measure = JInt 80, name = JStr ''Lamp'', state = JStr ''on''\<rparr>)
   \<and> fst (get_state plain_client (serving (JList ([lamp_record] @ fan_switch # []))))
      = Inr (JList ([lamp_record] @ fan_switch # []))
   \<and> getitem fan_switch ''entity_id'' = Inr (JStr ''switch.fan'')
   \<and> getitem fan_switch ''attributes'' = Inr (JObj [(''friendly_name'', JStr ''Fan'')])
   \<and> fst (find_entity_attr plain_client ''switch.fan''
          (serving (JList ([lamp_record] @ fan_switch # []))))
        = Inr (Some \<lparr>unit_measure = JStr [], name = JStr ''Fan'', state = JStr ''off''\<rparr>)
   \<and> fst (get_state plain_client (serving (JList ([] @ nameless_lamp # []))))
      = Inr (JList ([] @ nameless_lamp # []))
   \<and> fst (find_entity_attr plain_client ''light.lamp''
          (serving (JList ([] @ nameless_lamp # [])))) = Inl KeyError
   \<and> CHR ''.'' \<in> set ''light.lamp'' \<and> startswith ''light.lamp'' ''light.''
   \<and> domain_of ''light.lamp'' = ''light''"
  using find_entity_attr_unit[of plain_client "serving (JList ([] @ lamp_record # [fan_switch]))"
      "[]" lamp_record "[fan_switch]" "''light.lamp''"
      "[(''brightness'', JInt 80), (''friendly_name'', JStr ''Lamp'')]"]
    find_entity_attr_unit[of plain_client "serving (JList ([lamp_record] @ fan_switch # []))"
      "[lamp_record]" fan_switch "[]" "''switch.fan''" "[(''friendly_name'', JStr ''Fan'')]"]
    find_entity_attr_unit[of plain_client "serving (JList ([] @ nameless_lamp # []))"
      "[]" nameless_lamp "[]" "''light.lamp''" "[(''brightness'', JInt 80)]"]
  by (simp add: get_state_serving getitem_lamp getitem_fan getitem_nameless startswith_def
      domain_of_def)

text \<open>
  C7 as stated fails: the lamp with brightness 80 whose record has no
  \<^verbatim>\<open>state\<close> is found by its id, and the call raises \<open>KeyError\<close> instead of returning a
  summary with the unit 80.
\<close>

theorem find_entity_attr_no_state_raises:
  "getitem desk_lamp ''entity_id'' = Inr (JStr ''light.desk'')
   \<and> getitem desk_lamp ''attributes''
        = Inr (JObj [(''brightness'', JInt 80), (''friendly_name'', JStr ''Desk'')])
   \<and> fst (find_entity_attr plain_client ''light.desk'' (serving (JList [desk_lamp])))
        = Inl KeyError"
  by (simp add: find_entity_attr_def get_state_serving find_entity_attr_in_def desk_lamp_def
      attr_summary_def unit_of_def err_bind_def startswith_def)

section \<open>Domains outside the allowed ones\<close>

text \<open>
  C8: when no element of the catalog has its domain (what stands before the first dot of
  its id) in \<open>types\<close>, \<^verbatim>\<open>find_entity\<close> returns none, for every scoring function and
  utterance. With \<open>types = []\<close> this is every catalog of dicts with string ids.
\<close>

theorem find_entity_none_outside_domains:
  "fst (get_state self srv) = Inr (JList states) \<Longrightarrow> \<forall>st \<in> set states. excluded types st \<Longrightarrow>
   fst (find_entity tsr self entity types srv) = Inr None"
  by (simp add: find_entity_of_payload find_entity_in_excluded)

theorem find_entity_none_outside_domains_witness:
  "fst (get_state plain_client (serving (JList [lamp_record]))) = Inr (JList [lamp_record])
   \<and> excluded [''switch''] lamp_record
   \<and> fst (find_entity exact_tsr plain_client ''lamp'' [''switch''] (serving (JList [lamp_record])))
       = Inr None
   \<and> excluded [] lamp_record
   \<and> fst (find_entity exact_tsr plain_client ''lamp'' [] (serving (JList [lamp_record])))
       = Inr None"
  using find_entity_none_outside_domains[of plain_client "serving (JList [lamp_record])"
      "[lamp_record]" "[''switch'']" exact_tsr "''lamp''"]
    find_entity_none_outside_domains[of plain_client "serving (JList [lamp_record])"
      "[lamp_record]" "[]" exact_tsr "''lamp''"]
  by (simp add: get_state_serving excluded_lamp excluded_lamp_no_types)

section \<open>The service invoker\<close>

lemma execute_service_sent:
  "length (sent (snd (execute_service self domain service data srv))) = Suc (length (sent srv))"
  by (simp add: execute_service_def send_def Let_def split: list.splits sum.splits)

lemma execute_service_fst:
  "fst (execute_service self domain service data srv) =
     (case pending srv of
        [] \<Rightarrow> Inl RequestsConnectionError
      | Inl e # rest \<Rightarrow> Inl e
      | Inr resp # rest \<Rightarrow>
          (case raise_for_status resp of Inl e \<Rightarrow> Inl e | Inr u \<Rightarrow> Inr resp))"
  by (simp add: execute_service_def send_def Let_def split: list.splits sum.splits)

text \<open>
  C9: \<^verbatim>\<open>execute_service\<close> sends exactly one request whatever happens; on a response
  it raises \<open>HTTPError\<close> when the status is not 2xx and returns the response itself
  otherwise; an exception of the transport propagates.
\<close>

theorem execute_service_outcome:
  "length (sent (snd (execute_service self domain service data srv))) = Suc (length (sent srv))
   \<and> (pending srv = Inr resp # rest \<longrightarrow>
        fst (execute_service self domain service data srv) =
          (if 200 \<le> status_code resp \<and> status_code resp < 300 then Inr resp else Inl HTTPError))
   \<and> (pending srv = Inl e # rest \<longrightarrow> fst (execute_service self domain service data srv) = Inl e)"
  by (simp add: execute_service_sent execute_service_fst raise_for_status_def)

theorem execute_service_outcome_witness:
  "pending (replying 404 JNull) = Inr \<lparr>status_code = 404, json_result = Inr JNull\<rparr> # []
   \<and> fst (execute_service plain_client ''light'' ''turn_on''
           (JObj [(''entity_id'', JStr ''light.lamp'')]) (replying 404 JNull)) = Inl HTTPError
   \<and> length (sent (snd (execute_service plain_client ''light'' ''turn_on''
           (JObj [(''entity_id'', JStr ''light.lamp'')]) (replying 404 JNull)))) = Suc 0
   \<and> pending (replying 200 JNull) = Inr \<lparr>status_code = 200, json_result = Inr JNull\<rparr> # []
   \<and> fst (execute_service plain_client ''light'' ''turn_on''
           (JObj [(''entity_id'', JStr ''light.lamp'')]) (replying 200 JNull))
       = Inr \<lparr>status_code = 200, json_result = Inr JNull\<rparr>
   \<and> length (sent (snd (execute_service plain_client ''light'' ''turn_on''
           (JObj [(''entity_id'', JStr ''light.lamp'')]) (replying 200 JNull)))) = Suc 0
   \<and> pending timing_out = Inl Timeout # []
   \<and> fst (execute_service plain_client ''light'' ''turn_on''
           (JObj [(''entity_id'', JStr ''light.lamp'')]) timing_out) = Inl Timeout"
  using execute_service_outcome[of plain_client "''light''" "''turn_on''"
      "JObj [(''entity_id'', JStr ''light.lamp'')]" "replying 404 JNull"
      "\<lparr>status_code = 404, json_result = Inr JNull\<rparr>" "[]" Timeout]
    execute_service_outcome[of plain_client "''light''" "''turn_on''"
      "JObj [(''entity_id'', JStr ''light.lamp'')]" "replying 200 JNull"
      "\<lparr>status_code = 200, json_result = Inr JNull\<rparr>" "[]" Timeout]
    execute_service_outcome[of plain_client "''light''" "''turn_on''"
      "JObj [(''entity_id'', JStr ''light.lamp'')]" timing_out
      "\<lparr>status_code = 200, json_result = Inr JNull\<rparr>" "[]" Timeout]
  by (simp add: replying_def timing_out_def)

section \<open>Friendly names\<close>

lemma update_best_built:
  "st \<in> set states \<Longrightarrow> built_from states sc \<Longrightarrow> built_from states (snd (update_best score st sc))"
  using update_best_cases[of score st sc]
  by (auto simp: built_from_def) (metis candidate_score)

lemma find_entity_in_built:
  assumes "find_entity_in tsr entity types json_data = Inr (Some c)"
  shows "\<exists>states st. py_iter json_data = Inr states \<and> st \<in> set states
           \<and> candidate st (best_score c) = Inr c"
proof -
  from assms obtain states bs where it: "py_iter json_data = Inr states"
    and s: "scan_loop tsr entity types states (50, None) = Inr (bs, Some c)"
    by (auto simp: find_entity_in_def split: if_splits sum.splits)
  have "built_from states (bs, Some c)"
    by (rule scan_loop_inv[OF s]) (simp_all add: built_from_def update_best_built[unfolded built_from_def])
  then show ?thesis using it by (auto simp: built_from_def)
qed

lemma candidate_fields:
  "candidate st score = Inr c \<Longrightarrow>
     getitem st ''entity_id'' = Inr (ent_id c) \<and> getitem st ''attributes'' = Inr (attributes c)
     \<and> getitem (attributes c) ''friendly_name'' = Inr (dev_name c)
     \<and> getitem st ''state'' = Inr (ent_state c)"
  by (auto simp: candidate_def err_bind_def split: sum.splits)

lemma getitem_Inr: "getitem a k = Inr v \<Longrightarrow> \<exists>kvs. a = JObj kvs \<and> map_of kvs k = Some v"
  by (cases a) (auto split: option.splits)

text \<open>
  C10: an entity returned by \<^verbatim>\<open>find_entity\<close> has a \<^verbatim>\<open>friendly_name\<close> key in its
  attributes, and it was built from an element of the payload with these attributes: an
  element without \<^verbatim>\<open>friendly_name\<close> is never the result, whatever its raw id scores.
\<close>

theorem find_entity_has_friendly_name:
  assumes "fst (find_entity tsr self entity types srv) = Inr (Some c)"
  shows "(\<exists>kvs. attributes c = JObj kvs \<and> map_of kvs ''friendly_name'' = Some (dev_name c))
     \<and> (\<exists>json_data states st. fst (get_state self srv) = Inr json_data
           \<and> py_iter json_data = Inr states \<and> st \<in> set states
           \<and> getitem st ''entity_id'' = Inr (ent_id c)
           \<and> getitem st ''attributes'' = Inr (attributes c))"
proof -
  from find_entity_fst[OF assms] obtain json_data where
    g: "fst (get_state self srv) = Inr json_data" and
    f: "find_entity_in tsr entity types json_data = Inr (Some c)" by blast
  from find_entity_in_built[OF f] obtain states st where
    it: "py_iter json_data = Inr states" and mem: "st \<in> set states" and
    c: "candidate st (best_score c) = Inr c" by blast
  note fl = candidate_fields[OF c]
  from fl have "\<exists>kvs. attributes c = JObj kvs \<and> map_of kvs ''friendly_name'' = Some (dev_name c)"
    by (intro getitem_Inr) simp
  moreover have "\<exists>json_data states st. fst (get_state self srv) = Inr json_data
           \<and> py_iter json_data = Inr states \<and> st \<in> set states
           \<and> getitem st ''entity_id'' = Inr (ent_id c)
           \<and> getitem st ''attributes'' = Inr (attributes c)"
    using g it mem fl by blast
  ultimately show ?thesis by blast
qed

theorem find_entity_has_friendly_name_witness:
  "fst (find_entity exact_tsr plain_client ''lamp'' [''light''] (serving (JList [lamp_record])))
     = Inr (Some lamp_entity)
   \<and> (\<exists>kvs. attributes lamp_entity = JObj kvs
          \<and> map_of kvs ''friendly_name'' = Some (dev_name lamp_entity))
   \<and> (\<exists>json_data states st.
          fst (get_state plain_client (serving (JList [lamp_record]))) = Inr json_data
           \<and> py_iter json_data = Inr states \<and> st \<in> set states
           \<and> getitem st ''entity_id'' = Inr (ent_id lamp_entity)
           \<and> getitem st ''attributes'' = Inr (attributes lamp_entity))
   \<and> exact_tsr ''light.lamp'' (lower ''light.lamp'') = 100
   \<and> fst (find_entity exact_tsr plain_client ''light.lamp'' [''light'']
            (serving (JList [nameless_lamp]))) = Inr None"
  using find_entity_has_friendly_name[of exact_tsr plain_client "''lamp''" "[''light'']"
      "serving (JList [lamp_record])" lamp_entity] find_lamp
  by (simp add: find_entity_of_payload get_state_serving nameless_not_found exact_tsr_def
      lower_def lower_char_def)

end
